theory Spec2Isabelle
  imports Main "HOL-Library.Sublist"
begin

section \<open>Authority endpoint resolution: the data model\<close>

text \<open>
  The development embeds \<^verbatim>\<open>authority_endpoint_resolution_manager.go\<close> (package
  \<^verbatim>\<open>requests\<close>). The types of package \<^verbatim>\<open>msalbase\<close> are not among the sources; they are
  declared here with the fields the resolver reads and writes.
\<close>

text \<open>
  Modelled from the spec: \<^verbatim>\<open>msalbase.AuthorityType\<close>, whose declaration is missing. The
  spec has two authority types, StandardProvider and FederatedADFS; the source names them
  \<^verbatim>\<open>msalbase.MSSTS\<close> and \<^verbatim>\<open>msalbase.ADFS\<close>. The resolver only ever tests
  \<^verbatim>\<open>== msalbase.ADFS\<close>.
\<close>

datatype AuthorityType = MSSTS | ADFS

text \<open>
  Modelled from the spec: \<^verbatim>\<open>msalbase.AuthorityInfo\<close> (section 3 of the spec:
  host, tenant, authorityType, canonicalURI, validateAuthority).
\<close>

record AuthorityInfo =
  Host :: string
  Tenant :: string
  AuthorityType :: AuthorityType
  CanonicalAuthorityURI :: string
  ValidateAuthority :: bool

text \<open>
  Modelled from the spec: \<^verbatim>\<open>msalbase.AuthorityEndpoints\<close> and its constructor
  \<^verbatim>\<open>msalbase.CreateAuthorityEndpoints\<close>, called with the authorization endpoint, the token
  endpoint, the issuer and the host, in this order.
\<close>

record AuthorityEndpoints =
  AuthorizationEndpoint :: string
  TokenEndpoint :: string
  Issuer :: string
  EndpointsHost :: string

definition CreateAuthorityEndpoints ::
  "string \<Rightarrow> string \<Rightarrow> string \<Rightarrow> string \<Rightarrow> AuthorityEndpoints" where
  "CreateAuthorityEndpoints authorizationEndpoint tokenEndpoint issuer host =
     \<lparr>AuthorizationEndpoint = authorizationEndpoint, TokenEndpoint = tokenEndpoint,
      Issuer = issuer, EndpointsHost = host\<rparr>"

text \<open>
  \<^verbatim>\<open>requests.TenantDiscoveryResponse\<close>: the three fields the resolver reads (the test file
  builds the struct from exactly these). The field names carry the prefix \<open>tdr\<close> because
  a record of this theory already has fields of the same names.
\<close>

record TenantDiscoveryResponse =
  tdrAuthorizationEndpoint :: string
  tdrTokenEndpoint :: string
  tdrIssuer :: string

text \<open>
  Modelled from the spec: the three methods \<^verbatim>\<open>HasAuthorizationEndpoint\<close>,
  \<^verbatim>\<open>HasTokenEndpoint\<close> and \<^verbatim>\<open>HasIssuer\<close> of the discovery response, which are missing.
  The spec requires "a non-empty authorization endpoint, token endpoint, and issuer".
\<close>

definition HasAuthorizationEndpoint :: "TenantDiscoveryResponse \<Rightarrow> bool" where
  "HasAuthorizationEndpoint r = (tdrAuthorizationEndpoint r \<noteq> [])"

definition HasTokenEndpoint :: "TenantDiscoveryResponse \<Rightarrow> bool" where
  "HasTokenEndpoint r = (tdrTokenEndpoint r \<noteq> [])"

definition HasIssuer :: "TenantDiscoveryResponse \<Rightarrow> bool" where
  "HasIssuer r = (tdrIssuer r \<noteq> [])"

subsection \<open>Errors, panics and results\<close>

text \<open>
  A Go \<^verbatim>\<open>error\<close> value is built by \<^verbatim>\<open>errors.New\<close> from a message. A run-time panic is not
  an error value: it unwinds the call. A function of the source that returns
  \<^verbatim>\<open>(T, error)\<close> has a result of type \<open>error + T\<close>; every function that can reach the
  indexing expression of \<^verbatim>\<open>getAdfsDomainFromUpn\<close> has an \<open>outcome\<close> around its result.
\<close>

datatype error = errors_New string

datatype panic = index_out_of_range nat nat

datatype 'a outcome = Returned 'a | Panicked panic

subsection \<open>The collaborators\<close>

text \<open>
  \<^verbatim>\<open>IWebRequestManager\<close> is the Discovery Fetcher; the resolver calls one method of it.
\<close>

record IWebRequestManager =
  GetTenantDiscoveryResponse :: "string \<Rightarrow> error + TenantDiscoveryResponse"

record AuthorityEndpointResolutionManager =
  webRequestManager :: IWebRequestManager

definition CreateAuthorityEndpointResolutionManager ::
  "IWebRequestManager \<Rightarrow> AuthorityEndpointResolutionManager" where
  "CreateAuthorityEndpointResolutionManager wrm = \<lparr>webRequestManager = wrm\<rparr>"

text \<open>
  The value that \<^verbatim>\<open>createOpenIDConfigurationEndpointManager\<close> returns: an object with the
  method \<^verbatim>\<open>getOpenIDConfigurationEndpoint\<close>. The function
  \<^verbatim>\<open>createOpenIDConfigurationEndpointManager\<close> itself lives in a file that is not among the
  sources, so \<open>ResolveEndpoints\<close> below takes it as its first argument.
\<close>

record IOpenIDConfigurationEndpointManager =
  getOpenIDConfigurationEndpoint :: "AuthorityInfo \<Rightarrow> string \<Rightarrow> error + string"

type_synonym endpointManagerFactory =
  "AuthorityInfo \<Rightarrow> error + IOpenIDConfigurationEndpointManager"

subsection \<open>The endpoint cache and the package state\<close>

text \<open>
  \<^verbatim>\<open>Endpoints\<close> is a pointer in the source and may be \<^verbatim>\<open>nil\<close>: an \<open>option\<close>.
  \<^verbatim>\<open>ValidForDomainsInList\<close> is a \<^verbatim>\<open>map[string]bool\<close> used as a set: the source only
  asks whether a key is present.
\<close>

record authorityEndpointCacheEntry =
  Endpoints :: "AuthorityEndpoints option"
  ValidForDomainsInList :: "string \<rightharpoonup> bool"

definition createAuthorityEndpointCacheEntry ::
  "AuthorityEndpoints option \<Rightarrow> authorityEndpointCacheEntry" where
  "createAuthorityEndpointCacheEntry endpoints =
     \<lparr>Endpoints = endpoints, ValidForDomainsInList = Map.empty\<rparr>"

text \<open>
  What the resolver does to the world outside its own frame: it reads and writes the
  package-level map \<^verbatim>\<open>endpointCacheEntries\<close> and it calls the Discovery Fetcher. The
  \<open>trace\<close> records these effects in the order they happen (logging is left out).
\<close>

datatype event = CacheLookup string | CacheStore string | Discovery string

text \<open>
  The state of package \<^verbatim>\<open>requests\<close>: the variable
  \<^verbatim>\<open>var endpointCacheEntries = map[string]*authorityEndpointCacheEntry{}\<close>, which the source
  declares at package level ("package global static"), and the trace. The map is not a
  field of the manager.
\<close>

record package_state =
  endpointCacheEntries :: "string \<rightharpoonup> authorityEndpointCacheEntry"
  trace :: "event list"

definition initial_state :: package_state where
  "initial_state = \<lparr>endpointCacheEntries = Map.empty, trace = []\<rparr>"

definition record_event :: "event \<Rightarrow> package_state \<Rightarrow> package_state" where
  "record_event ev s = s\<lparr>trace := trace s @ [ev]\<rparr>"

section \<open>The string functions of the Go library that the resolver calls\<close>

text \<open>
  \<^verbatim>\<open>strings.Split(s, sep)\<close> for a non-empty separator: \<open>s\<close> is cut at every occurrence of
  \<open>sep\<close>, found from left to right, and the pieces between the occurrences are returned,
  one more than there are cuts. The source calls it with the literal \<^verbatim>\<open>"@"\<close>; the case of
  an empty separator (Go splits after each UTF-8 sequence) is not modelled, and for it
  this function returns \<open>[s]\<close>.
\<close>

fun strings_Split :: "string \<Rightarrow> string \<Rightarrow> string list" where
  "strings_Split [] sep = [[]]"
| "strings_Split (c # cs) sep =
     (if sep \<noteq> [] \<and> prefix sep (c # cs)
      then [] # strings_Split (drop (length sep) (c # cs)) sep
      else (case strings_Split cs sep of
              [] \<Rightarrow> [[c]]
            | p # ps \<Rightarrow> (c # p) # ps))"

text \<open>
  \<^verbatim>\<open>strings.Replace(s, old, new, n)\<close> for a non-empty \<open>old\<close>: the first \<open>n\<close>
  non-overlapping occurrences of \<open>old\<close>, found from left to right, are replaced by
  \<open>new\<close>; a negative \<open>n\<close> means no limit. The source calls it with the literal
  \<^verbatim>\<open>"{tenant}"\<close> and \<open>n = -1\<close>.
\<close>

fun strings_Replace :: "string \<Rightarrow> string \<Rightarrow> string \<Rightarrow> int \<Rightarrow> string" where
  "strings_Replace [] old new n = []"
| "strings_Replace (c # cs) old new n =
     (if n = 0 then c # cs
      else if old \<noteq> [] \<and> prefix old (c # cs)
      then new @ strings_Replace (drop (length old) (c # cs)) old new (n - 1)
      else c # strings_Replace cs old new n)"

section \<open>The resolver\<close>

text \<open>
  \<^verbatim>\<open>return strings.Split(userPrincipalName, "@")[1]\<close>: element 1 of the split, and a
  run-time panic when the split has a single element.
\<close>

definition getAdfsDomainFromUpn :: "string \<Rightarrow> string outcome" where
  "getAdfsDomainFromUpn userPrincipalName =
     (let parts = strings_Split userPrincipalName ''@''
      in if 1 < length parts then Returned (parts ! 1)
         else Panicked (index_out_of_range 1 (length parts)))"

text \<open>
  The receiver \<open>m\<close> is not used by the two cache functions: they work on the package
  variable. A \<^verbatim>\<open>nil\<close> result is \<open>None\<close>.
\<close>

definition tryGetCachedEndpoints ::
  "AuthorityEndpointResolutionManager \<Rightarrow> AuthorityInfo \<Rightarrow> string \<Rightarrow> package_state
     \<Rightarrow> AuthorityEndpoints option outcome \<times> package_state" where
  "tryGetCachedEndpoints m authorityInfo userPrincipalName s =
     (let s1 = record_event (CacheLookup (CanonicalAuthorityURI authorityInfo)) s
      in case endpointCacheEntries s (CanonicalAuthorityURI authorityInfo) of
           Some cacheEntry \<Rightarrow>
             if AuthorityType authorityInfo = ADFS then
               (case getAdfsDomainFromUpn userPrincipalName of
                  Panicked p \<Rightarrow> (Panicked p, s1)
                | Returned d \<Rightarrow>
                    (case ValidForDomainsInList cacheEntry d of
                       Some ok \<Rightarrow> (Returned (Endpoints cacheEntry), s1)
                     | None \<Rightarrow> (Returned None, s1)))
             else (Returned (Endpoints cacheEntry), s1)
         | None \<Rightarrow> (Returned None, s1))"

text \<open>
  The loop \<^verbatim>\<open>for k := range cacheEntry.ValidForDomainsInList\<close> sets every key of the old
  entry to \<^verbatim>\<open>true\<close> in the new one; the iterations write different keys, so their order
  does not matter and the loop is the pointwise update below.
\<close>

definition copyValidForDomains :: "(string \<rightharpoonup> bool) \<Rightarrow> (string \<rightharpoonup> bool) \<Rightarrow> (string \<rightharpoonup> bool)" where
  "copyValidForDomains old updated =
     (\<lambda>k. case old k of Some v \<Rightarrow> Some True | None \<Rightarrow> updated k)"

definition addCachedEndpoints ::
  "AuthorityEndpointResolutionManager \<Rightarrow> AuthorityInfo \<Rightarrow> string \<Rightarrow> AuthorityEndpoints option
     \<Rightarrow> package_state \<Rightarrow> unit outcome \<times> package_state" where
  "addCachedEndpoints m authorityInfo userPrincipalName endpoints s =
     (let uri = CanonicalAuthorityURI authorityInfo;
          updatedCacheEntry = createAuthorityEndpointCacheEntry endpoints
      in if AuthorityType authorityInfo = ADFS then
           (let s1 = record_event (CacheLookup uri) s;
                copied =
                  (case endpointCacheEntries s uri of
                     Some cacheEntry \<Rightarrow>
                       updatedCacheEntry\<lparr>ValidForDomainsInList :=
                         copyValidForDomains (ValidForDomainsInList cacheEntry)
                           (ValidForDomainsInList updatedCacheEntry)\<rparr>
                   | None \<Rightarrow> updatedCacheEntry)
            in case getAdfsDomainFromUpn userPrincipalName of
                 Panicked p \<Rightarrow> (Panicked p, s1)
               | Returned d \<Rightarrow>
                   (Returned (),
                    record_event (CacheStore uri)
                      (s1\<lparr>endpointCacheEntries := (endpointCacheEntries s1)
                            (uri \<mapsto> copied\<lparr>ValidForDomainsInList :=
                                       (ValidForDomainsInList copied)(d \<mapsto> True)\<rparr>)\<rparr>)))
         else
           (Returned (),
            record_event (CacheStore uri)
              (s\<lparr>endpointCacheEntries := (endpointCacheEntries s)(uri \<mapsto> updatedCacheEntry)\<rparr>)))"

definition ResolveEndpoints ::
  "endpointManagerFactory \<Rightarrow> AuthorityEndpointResolutionManager \<Rightarrow> AuthorityInfo \<Rightarrow> string
     \<Rightarrow> package_state \<Rightarrow> (error + AuthorityEndpoints) outcome \<times> package_state" where
  "ResolveEndpoints createOpenIDConfigurationEndpointManager m authorityInfo userPrincipalName s =
     (if AuthorityType authorityInfo = ADFS \<and> length userPrincipalName = 0 then
        (Returned (Inl (errors_New ''UPN Required for Authority Validation for ADFS'')), s)
      else
        case tryGetCachedEndpoints m authorityInfo userPrincipalName s of
          (Panicked p, s1) \<Rightarrow> (Panicked p, s1)
        | (Returned (Some endpoints), s1) \<Rightarrow> (Returned (Inr endpoints), s1)
        | (Returned None, s1) \<Rightarrow>
            (case createOpenIDConfigurationEndpointManager authorityInfo of
               Inl err \<Rightarrow> (Returned (Inl err), s1)
             | Inr endpointManager \<Rightarrow>
                 (case getOpenIDConfigurationEndpoint endpointManager authorityInfo
                         userPrincipalName of
                    Inl err \<Rightarrow> (Returned (Inl err), s1)
                  | Inr openIDConfigurationEndpoint \<Rightarrow>
                      (let s2 = record_event (Discovery openIDConfigurationEndpoint) s1
                       in case GetTenantDiscoveryResponse (webRequestManager m)
                                 openIDConfigurationEndpoint of
                            Inl err \<Rightarrow> (Returned (Inl err), s2)
                          | Inr tenantDiscoveryResponse \<Rightarrow>
                              if \<not> HasAuthorizationEndpoint tenantDiscoveryResponse then
                                (Returned (Inl (errors_New
                                   ''Authorize endpoint was not found in the openid configuration'')), s2)
                              else if \<not> HasTokenEndpoint tenantDiscoveryResponse then
                                (Returned (Inl (errors_New
                                   ''Token endpoint was not found in the openid configuration'')), s2)
                              else if \<not> HasIssuer tenantDiscoveryResponse then
                                (Returned (Inl (errors_New
                                   ''Issuer was not found in the openid configuration'')), s2)
                              else
                                (let tenant = Tenant authorityInfo;
                                     endpoints = CreateAuthorityEndpoints
                                       (strings_Replace (tdrAuthorizationEndpoint tenantDiscoveryResponse)
                                          ''{tenant}'' tenant (- 1))
                                       (strings_Replace (tdrTokenEndpoint tenantDiscoveryResponse)
                                          ''{tenant}'' tenant (- 1))
                                       (strings_Replace (tdrIssuer tenantDiscoveryResponse)
                                          ''{tenant}'' tenant (- 1))
                                       (Host authorityInfo)
                                 in case addCachedEndpoints m authorityInfo userPrincipalName
                                           (Some endpoints) s2 of
                                      (Panicked p, s3) \<Rightarrow> (Panicked p, s3)
                                    | (Returned u, s3) \<Rightarrow> (Returned (Inr endpoints), s3))))))"


definition returns_endpoints :: "(error + AuthorityEndpoints) outcome \<Rightarrow> bool" where
  "returns_endpoints r = (case r of Returned (Inr endpoints) \<Rightarrow> True | _ \<Rightarrow> False)"

definition is_Discovery :: "event \<Rightarrow> bool" where
  "is_Discovery ev = (case ev of Discovery url \<Rightarrow> True | _ \<Rightarrow> False)"

definition discovery_calls :: "event list \<Rightarrow> nat" where
  "discovery_calls evs = length (filter is_Discovery evs)"

text \<open>
  The words of the spec for the domain of a user principal name: "the substring after
  the last @". This definition follows the spec, not the source; the source's function
  is \<open>getAdfsDomainFromUpn\<close>.
\<close>

definition domain_after_last_at :: "string \<Rightarrow> string" where
  "domain_after_last_at upn = rev (takeWhile (\<lambda>c. c \<noteq> CHR ''@'') (rev upn))"

text \<open>
  What the extraction of the source amounts to, said without the split: the text between
  the first @ of the name and the next @, or the end of the name.
\<close>

definition domain_after_first_at :: "string \<Rightarrow> string" where
  "domain_after_first_at upn =
     takeWhile (\<lambda>c. c \<noteq> CHR ''@'') (drop 1 (dropWhile (\<lambda>c. c \<noteq> CHR ''@'') upn))"

text \<open>
  The words of the spec for the substitution: a string \<open>t\<close> is \<open>s\<close> with every occurrence
  of \<open>old\<close> replaced by \<open>new\<close>. Either \<open>old\<close> does not occur in \<open>s\<close> and \<open>t\<close> is \<open>s\<close>;
  or \<open>s\<close> is a piece without an occurrence, then \<open>old\<close>, then a rest, and \<open>t\<close> is the
  same piece, then \<open>new\<close>, then the rest with every occurrence replaced. This relation
  follows the spec, not the source; the source calls \<^verbatim>\<open>strings.Replace\<close>.
\<close>

inductive every_occurrence_replaced :: "string \<Rightarrow> string \<Rightarrow> string \<Rightarrow> string \<Rightarrow> bool"
  for old new :: string where
  no_occurrence: "\<not> sublist old s \<Longrightarrow> every_occurrence_replaced old new s s"
| occurrence: "\<not> sublist old p \<Longrightarrow> every_occurrence_replaced old new s t \<Longrightarrow>
     every_occurrence_replaced old new (p @ old @ s) (p @ new @ t)"

section \<open>Fixtures\<close>

text \<open>
  Concrete inputs on which the theorems below are exercised. The metadata URL is the
  canonical URI followed by \<^verbatim>\<open>v2.0/.well-known/openid-configuration\<close>, as in the mock
  expectations of the test file; a mock fetcher answers every URL with the same document.
\<close>

definition testAuthorityInfo :: AuthorityInfo where
  "testAuthorityInfo =
     \<lparr>Host = ''login.test'', Tenant = ''contoso'', AuthorityType = MSSTS,
      CanonicalAuthorityURI = ''https://login.test/contoso/'', ValidateAuthority = True\<rparr>"

definition adfsAuthorityInfo :: AuthorityInfo where
  "adfsAuthorityInfo =
     \<lparr>Host = ''fs.test'', Tenant = ''adfs'', AuthorityType = ADFS,
      CanonicalAuthorityURI = ''https://fs.test/adfs/'', ValidateAuthority = True\<rparr>"

definition testEndpointManager :: IOpenIDConfigurationEndpointManager where
  "testEndpointManager =
     \<lparr>getOpenIDConfigurationEndpoint =
        (\<lambda>ai upn. Inr (CanonicalAuthorityURI ai @ ''v2.0/.well-known/openid-configuration''))\<rparr>"

definition testEndpointManagerFactory :: endpointManagerFactory where
  "testEndpointManagerFactory authorityInfo = Inr testEndpointManager"

definition tdr :: TenantDiscoveryResponse where
  "tdr = \<lparr>tdrAuthorizationEndpoint = ''https://login.test/{tenant}/authorize'',
          tdrTokenEndpoint = ''https://login.test/{tenant}/token'',
          tdrIssuer = ''https://login.test/{tenant}''\<rparr>"

definition tdrOther :: TenantDiscoveryResponse where
  "tdrOther = \<lparr>tdrAuthorizationEndpoint = ''https://other.test/authorize'',
               tdrTokenEndpoint = ''https://other.test/token'',
               tdrIssuer = ''https://other.test''\<rparr>"

definition tdrNoIssuer :: TenantDiscoveryResponse where
  "tdrNoIssuer = \<lparr>tdrAuthorizationEndpoint = ''https://login.test/{tenant}/authorize'',
                  tdrTokenEndpoint = ''https://login.test/{tenant}/token'',
                  tdrIssuer = []\<rparr>"

definition mockManager :: "TenantDiscoveryResponse \<Rightarrow> AuthorityEndpointResolutionManager" where
  "mockManager response =
     CreateAuthorityEndpointResolutionManager
       \<lparr>GetTenantDiscoveryResponse = (\<lambda>url. Inr response)\<rparr>"

definition failingManager :: AuthorityEndpointResolutionManager where
  "failingManager =
     CreateAuthorityEndpointResolutionManager
       \<lparr>GetTenantDiscoveryResponse = (\<lambda>url. Inl (errors_New ''This is a mock error''))\<rparr>"

text \<open>
  A package state in which the ADFS authority already has a cache entry, valid for the
  domain \<^verbatim>\<open>y.com\<close>.
\<close>

definition cachedEndpoints :: AuthorityEndpoints where
  "cachedEndpoints =
     CreateAuthorityEndpoints ''https://fs.test/adfs/authorize'' ''https://fs.test/adfs/token''
       ''https://fs.test/adfs'' ''fs.test''"

definition cachedEntry :: authorityEndpointCacheEntry where
  "cachedEntry = \<lparr>Endpoints = Some cachedEndpoints, ValidForDomainsInList = [''y.com'' \<mapsto> True]\<rparr>"

definition adfsCachedState :: package_state where
  "adfsCachedState =
     \<lparr>endpointCacheEntries = [''https://fs.test/adfs/'' \<mapsto> cachedEntry], trace = []\<rparr>"

text \<open>
  The same state with an entry that is valid for the domain \<^verbatim>\<open>x.com\<close> instead.
\<close>

definition cachedEntryX :: authorityEndpointCacheEntry where
  "cachedEntryX = \<lparr>Endpoints = Some cachedEndpoints, ValidForDomainsInList = [''x.com'' \<mapsto> True]\<rparr>"

definition adfsCachedStateX :: package_state where
  "adfsCachedStateX =
     \<lparr>endpointCacheEntries = [''https://fs.test/adfs/'' \<mapsto> cachedEntryX], trace = []\<rparr>"

text \<open>
  The package state after the standard authority has been resolved once, from the
  initial state.
\<close>

definition resolvedState :: package_state where
  "resolvedState =
     snd (ResolveEndpoints testEndpointManagerFactory (mockManager tdr) testAuthorityInfo []
            initial_state)"

definition resolvedEndpoints :: AuthorityEndpoints where
  "resolvedEndpoints =
     CreateAuthorityEndpoints ''https://login.test/contoso/authorize''
       ''https://login.test/contoso/token'' ''https://login.test/contoso'' ''login.test''"

section \<open>The silent acquisition engine: the tenant override\<close>

text \<open>
  Modelled from the spec: the errors that the silent acquisition engine returns, from
  the taxonomy of section 7 of the spec. The engine is not among the sources.
\<close>

datatype coreError = ConfigurationError | CacheMissError | GrantError | CacheWriteError

text \<open>
  Modelled from the spec: the tenant-override validation rule of section 4.3 of the
  spec, from the base specifier of the configured authority and the override. The code
  that applies a tenant override (the acquisition operations of package \<^verbatim>\<open>public\<close> and
  what they call) is not among the sources; only its test is. The branches are the
  bullets of the rule: a base of \<^verbatim>\<open>common\<close> or \<^verbatim>\<open>organizations\<close> allows any override,
  which becomes the effective tenant; a base of \<^verbatim>\<open>consumers\<close> allows none; a concrete
  tenant allows itself and nothing else.
\<close>

definition validateTenantOverride :: "string \<Rightarrow> string \<Rightarrow> coreError + string" where
  "validateTenantOverride base override =
     (if base = ''common'' \<or> base = ''organizations'' then Inr override
      else if base = ''consumers'' then Inl ConfigurationError
      else if override = base then Inr base
      else Inl ConfigurationError)"

text \<open>
  Modelled from the spec: the account of section 3 of the spec.
\<close>

record Account =
  homeAccountID :: string
  environment :: string
  realm :: string
  localAccountID :: string
  authorityType :: AuthorityType
  username :: string



subsection \<open>The test of the tenant override\<close>

text \<open>
  The table of \<^verbatim>\<open>TestAcquireTokenWithTenantID\<close> (package \<^verbatim>\<open>public\<close>), with the local
  variables it is built from. \<^verbatim>\<open>strings.ReplaceAll(s, old, new)\<close> is
  \<^verbatim>\<open>strings.Replace(s, old, new, -1)\<close>. A field that a row leaves out has Go's zero
  value: the empty string, \<^verbatim>\<open>false\<close>.
\<close>

definition uuid1 :: string where
  "uuid1 = ''00000000-0000-0000-0000-000000000000''"

definition uuid2 :: string where
  "uuid2 = strings_Replace uuid1 ''0'' ''1'' (- 1)"

definition lmo :: string where
  "lmo = ''login.microsoftonline.com''"

definition host :: string where
  "host = ''https://'' @ lmo @ ''/''"

record tenantIDCase =
  authority :: string
  expectedAuthority :: string
  tenant :: string
  expectError :: bool

definition TestAcquireTokenWithTenantID_cases :: "tenantIDCase list" where
  "TestAcquireTokenWithTenantID_cases =
     [\<lparr>authority = host @ ''common'', expectedAuthority = host @ uuid1, tenant = uuid1,
        expectError = False\<rparr>,
      \<lparr>authority = host @ ''organizations'', expectedAuthority = host @ uuid1, tenant = uuid1,
        expectError = False\<rparr>,
      \<lparr>authority = host @ uuid1, expectedAuthority = host @ uuid2, tenant = uuid2,
        expectError = False\<rparr>,
      \<lparr>authority = host @ uuid1, expectedAuthority = [], tenant = ''common'',
        expectError = True\<rparr>,
      \<lparr>authority = host @ uuid1, expectedAuthority = [], tenant = ''organizations'',
        expectError = True\<rparr>,
      \<lparr>authority = host @ ''consumers'', expectedAuthority = [], tenant = uuid1,
        expectError = True\<rparr>]"

text \<open>
  The base specifier of an authority of the table: what follows \<open>host\<close>.
\<close>

definition base_specifier :: "string \<Rightarrow> string" where
  "base_specifier a = drop (length host) a"

text \<open>
  What the body of the test checks of an acquisition with \<^verbatim>\<open>WithTenantID(test.tenant)\<close>
  on a client configured with \<^verbatim>\<open>test.authority\<close>: an error passes only on a row with
  \<^verbatim>\<open>expectError\<close>; a success passes only on a row without it, and then the URL of the
  token request, which begins with the effective authority, must have the prefix
  \<^verbatim>\<open>test.expectedAuthority\<close>.
\<close>

definition case_passes :: "(string \<Rightarrow> string \<Rightarrow> coreError + string) \<Rightarrow> tenantIDCase \<Rightarrow> bool" where
  "case_passes rule c =
     (case rule (base_specifier (authority c)) (tenant c) of
        Inl err \<Rightarrow> expectError c
      | Inr t \<Rightarrow> \<not> expectError c \<and> prefix (expectedAuthority c) (host @ t))"

lemmas fixture_defs = testAuthorityInfo_def adfsAuthorityInfo_def testEndpointManagerFactory_def
  testEndpointManager_def tdr_def tdrOther_def tdrNoIssuer_def mockManager_def failingManager_def
  CreateAuthorityEndpointResolutionManager_def initial_state_def cachedEndpoints_def
  cachedEntry_def adfsCachedState_def cachedEntryX_def adfsCachedStateX_def resolvedState_def
  resolvedEndpoints_def

lemmas resolver_defs = ResolveEndpoints_def tryGetCachedEndpoints_def addCachedEndpoints_def
  getAdfsDomainFromUpn_def createAuthorityEndpointCacheEntry_def CreateAuthorityEndpoints_def
  copyValidForDomains_def HasAuthorizationEndpoint_def HasTokenEndpoint_def HasIssuer_def
  record_event_def Let_def

section \<open>Basic facts about the cache functions\<close>

lemma tryGetCachedEndpoints_state:
  "snd (tryGetCachedEndpoints m ai upn s) = record_event (CacheLookup (CanonicalAuthorityURI ai)) s"
  by (simp add: tryGetCachedEndpoints_def Let_def split: option.splits outcome.splits)

lemma record_event_cache [simp]:
  "endpointCacheEntries (record_event ev s) = endpointCacheEntries s"
  by (simp add: record_event_def)

lemma record_event_trace [simp]:
  "trace (record_event ev s) = trace s @ [ev]"
  by (simp add: record_event_def)

lemma addCachedEndpoints_panic_keeps_cache:
  "addCachedEndpoints m ai upn e s = (Panicked p, s') \<Longrightarrow>
     endpointCacheEntries s' = endpointCacheEntries s"
  by (auto simp add: addCachedEndpoints_def Let_def
        split: option.splits outcome.splits if_splits)

lemma strings_Split_not_Nil: "strings_Split s sep \<noteq> []"
  by (induction s sep rule: strings_Split.induct) (auto split: list.splits)

lemma length_strings_Split_single:
  "length (strings_Split s [c]) = Suc (count_list s c)"
  by (induction s) (auto simp: strings_Split_not_Nil split: list.splits)

lemma count_list_pos_iff: "0 < count_list xs x \<longleftrightarrow> x \<in> set xs"
  using count_list_0_iff [of xs x] by auto

lemma getAdfsDomainFromUpn_Returned_iff:
  "(\<exists>d. getAdfsDomainFromUpn upn = Returned d) \<longleftrightarrow> CHR ''@'' \<in> set upn"
  by (simp add: getAdfsDomainFromUpn_def Let_def length_strings_Split_single count_list_pos_iff)

lemma getAdfsDomainFromUpn_no_at:
  "CHR ''@'' \<notin> set upn \<Longrightarrow> getAdfsDomainFromUpn upn = Panicked (index_out_of_range 1 1)"
  by (simp add: getAdfsDomainFromUpn_def Let_def length_strings_Split_single)

lemma tryGetCachedEndpoints_ADFS_entry:
  "endpointCacheEntries s (CanonicalAuthorityURI ai) = Some e \<Longrightarrow> AuthorityType ai = ADFS \<Longrightarrow>
   getAdfsDomainFromUpn upn = Returned d \<Longrightarrow>
   tryGetCachedEndpoints m ai upn s =
     (Returned (if d \<in> dom (ValidForDomainsInList e) then Endpoints e else None),
      record_event (CacheLookup (CanonicalAuthorityURI ai)) s)"
  by (auto simp add: tryGetCachedEndpoints_def Let_def split: option.splits)

lemma tryGetCachedEndpoints_other_entry:
  "endpointCacheEntries s (CanonicalAuthorityURI ai) = Some e \<Longrightarrow> AuthorityType ai \<noteq> ADFS \<Longrightarrow>
   tryGetCachedEndpoints m ai upn s =
     (Returned (Endpoints e), record_event (CacheLookup (CanonicalAuthorityURI ai)) s)"
  by (auto simp add: tryGetCachedEndpoints_def Let_def split: option.splits)

lemma ResolveEndpoints_hit:
  "\<not> (AuthorityType ai = ADFS \<and> upn = []) \<Longrightarrow>
   tryGetCachedEndpoints m ai upn s = (Returned (Some eps), s1) \<Longrightarrow>
   ResolveEndpoints mk m ai upn s = (Returned (Inr eps), s1)"
  by (simp add: ResolveEndpoints_def)

lemma ResolveEndpoints_miss:
  "\<not> (AuthorityType ai = ADFS \<and> upn = []) \<Longrightarrow>
   tryGetCachedEndpoints m ai upn s = (Returned None, s1) \<Longrightarrow>
   mk ai = Inr em \<Longrightarrow> getOpenIDConfigurationEndpoint em ai upn = Inr url \<Longrightarrow>
   GetTenantDiscoveryResponse (webRequestManager m) url = Inr r \<Longrightarrow>
   ResolveEndpoints mk m ai upn s =
    (if \<not> HasAuthorizationEndpoint r then
       (Returned (Inl (errors_New ''Authorize endpoint was not found in the openid configuration'')),
        record_event (Discovery url) s1)
     else if \<not> HasTokenEndpoint r then
       (Returned (Inl (errors_New ''Token endpoint was not found in the openid configuration'')),
        record_event (Discovery url) s1)
     else if \<not> HasIssuer r then
       (Returned (Inl (errors_New ''Issuer was not found in the openid configuration'')),
        record_event (Discovery url) s1)
     else case addCachedEndpoints m ai upn
                 (Some (CreateAuthorityEndpoints
                    (strings_Replace (tdrAuthorizationEndpoint r) ''{tenant}'' (Tenant ai) (- 1))
                    (strings_Replace (tdrTokenEndpoint r) ''{tenant}'' (Tenant ai) (- 1))
                    (strings_Replace (tdrIssuer r) ''{tenant}'' (Tenant ai) (- 1))
                    (Host ai))) (record_event (Discovery url) s1) of
            (Panicked p, s3) \<Rightarrow> (Panicked p, s3)
          | (Returned u, s3) \<Rightarrow>
              (Returned (Inr (CreateAuthorityEndpoints
                    (strings_Replace (tdrAuthorizationEndpoint r) ''{tenant}'' (Tenant ai) (- 1))
                    (strings_Replace (tdrTokenEndpoint r) ''{tenant}'' (Tenant ai) (- 1))
                    (strings_Replace (tdrIssuer r) ''{tenant}'' (Tenant ai) (- 1))
                    (Host ai))), s3))"
  by (cases "AuthorityType ai = ADFS") (simp_all add: ResolveEndpoints_def Let_def)

lemma dom_copyValidForDomains:
  "dom (copyValidForDomains old updated) = dom old \<union> dom updated"
  by (auto simp add: copyValidForDomains_def split: option.splits)

lemma addCachedEndpoints_ADFS:
  assumes "AuthorityType ai = ADFS" and "getAdfsDomainFromUpn upn = Returned d"
    and "addCachedEndpoints m ai upn e s = (r, s')"
  shows "r = Returned ()"
    and "trace s' = trace s @ [CacheLookup (CanonicalAuthorityURI ai), CacheStore (CanonicalAuthorityURI ai)]"
    and "endpointCacheEntries s' =
           (endpointCacheEntries s)(CanonicalAuthorityURI ai \<mapsto>
              \<lparr>Endpoints = e,
               ValidForDomainsInList =
                 (case endpointCacheEntries s (CanonicalAuthorityURI ai) of
                    None \<Rightarrow> Map.empty
                  | Some old \<Rightarrow> copyValidForDomains (ValidForDomainsInList old) Map.empty)
                 (d \<mapsto> True)\<rparr>)"
  using assms
  by (auto simp add: addCachedEndpoints_def Let_def createAuthorityEndpointCacheEntry_def
        dom_copyValidForDomains record_event_def split: option.splits)

lemma addCachedEndpoints_other:
  assumes "AuthorityType ai \<noteq> ADFS"
  shows "addCachedEndpoints m ai upn e s =
    (Returned (),
     \<lparr>endpointCacheEntries = (endpointCacheEntries s)(CanonicalAuthorityURI ai \<mapsto>
         \<lparr>Endpoints = e, ValidForDomainsInList = Map.empty\<rparr>),
      trace = trace s @ [CacheStore (CanonicalAuthorityURI ai)]\<rparr>)"
  using assms
  by (simp add: addCachedEndpoints_def Let_def createAuthorityEndpointCacheEntry_def record_event_def)


lemma tryGetCachedEndpoints_snd:
  "tryGetCachedEndpoints m ai upn s = (r, s1) \<Longrightarrow>
     s1 = record_event (CacheLookup (CanonicalAuthorityURI ai)) s"
  using tryGetCachedEndpoints_state [of m ai upn s] by simp

lemma ResolveEndpoints_success_cases:
  assumes "ResolveEndpoints mk m ai upn s = (Returned (Inr eps), s')"
  obtains
    (hit) "\<not> (AuthorityType ai = ADFS \<and> upn = [])"
      and "tryGetCachedEndpoints m ai upn s = (Returned (Some eps), s')"
  | (discovered) em url r where
      "\<not> (AuthorityType ai = ADFS \<and> upn = [])"
      and "tryGetCachedEndpoints m ai upn s =
             (Returned None, record_event (CacheLookup (CanonicalAuthorityURI ai)) s)"
      and "mk ai = Inr em"
      and "getOpenIDConfigurationEndpoint em ai upn = Inr url"
      and "GetTenantDiscoveryResponse (webRequestManager m) url = Inr r"
      and "HasAuthorizationEndpoint r" and "HasTokenEndpoint r" and "HasIssuer r"
      and "eps = CreateAuthorityEndpoints
                   (strings_Replace (tdrAuthorizationEndpoint r) ''{tenant}'' (Tenant ai) (- 1))
                   (strings_Replace (tdrTokenEndpoint r) ''{tenant}'' (Tenant ai) (- 1))
                   (strings_Replace (tdrIssuer r) ''{tenant}'' (Tenant ai) (- 1))
                   (Host ai)"
      and "addCachedEndpoints m ai upn (Some eps)
             (record_event (Discovery url)
                (record_event (CacheLookup (CanonicalAuthorityURI ai)) s)) = (Returned (), s')"
proof -
  from assms have valid: "\<not> (AuthorityType ai = ADFS \<and> upn = [])"
    by (auto simp add: ResolveEndpoints_def)
  obtain r0 s1 where tg: "tryGetCachedEndpoints m ai upn s = (r0, s1)"
    by (cases "tryGetCachedEndpoints m ai upn s")
  then have s1: "s1 = record_event (CacheLookup (CanonicalAuthorityURI ai)) s"
    by (rule tryGetCachedEndpoints_snd)
  show thesis
  proof (cases r0)
    case (Panicked p)
    with assms valid tg show ?thesis by (simp add: ResolveEndpoints_def)
  next
    case (Returned cached)
    show ?thesis
    proof (cases cached)
      case (Some e)
      with assms valid tg Returned have "e = eps" "s1 = s'"
        by (simp_all add: ResolveEndpoints_def)
      with tg Returned Some valid show ?thesis by (intro hit) simp_all
    next
      case None
      with tg Returned s1 have miss: "tryGetCachedEndpoints m ai upn s =
             (Returned None, record_event (CacheLookup (CanonicalAuthorityURI ai)) s)" by simp
      from assms valid miss obtain em where em: "mk ai = Inr em"
        by (cases "mk ai") (simp_all add: ResolveEndpoints_def)
      from assms valid miss em obtain url where url: "getOpenIDConfigurationEndpoint em ai upn = Inr url"
        by (cases "getOpenIDConfigurationEndpoint em ai upn") (simp_all add: ResolveEndpoints_def)
      from assms valid miss em url obtain r where r: "GetTenantDiscoveryResponse (webRequestManager m) url = Inr r"
        by (cases "GetTenantDiscoveryResponse (webRequestManager m) url") (simp_all add: ResolveEndpoints_def Let_def)
      note R = ResolveEndpoints_miss [where mk = mk and em = em, OF valid miss em url r]
      from assms R have has: "HasAuthorizationEndpoint r" "HasTokenEndpoint r" "HasIssuer r"
        by (auto split: if_splits)
      let ?eps = "CreateAuthorityEndpoints
                   (strings_Replace (tdrAuthorizationEndpoint r) ''{tenant}'' (Tenant ai) (- 1))
                   (strings_Replace (tdrTokenEndpoint r) ''{tenant}'' (Tenant ai) (- 1))
                   (strings_Replace (tdrIssuer r) ''{tenant}'' (Tenant ai) (- 1))
                   (Host ai)"
      from assms R has have e1: "eps = ?eps"
        by (auto split: prod.splits outcome.splits)
      from assms R has have "addCachedEndpoints m ai upn (Some ?eps)
             (record_event (Discovery url)
                (record_event (CacheLookup (CanonicalAuthorityURI ai)) s)) = (Returned (), s')"
        by (auto split: prod.splits outcome.splits)
      then have e2: "addCachedEndpoints m ai upn (Some eps)
             (record_event (Discovery url)
                (record_event (CacheLookup (CanonicalAuthorityURI ai)) s)) = (Returned (), s')"
        unfolding e1 .
      show ?thesis
        by (rule discovered [OF valid miss em url r has(1) has(2) has(3) e1 e2])
    qed
  qed
qed

lemma tryGetCachedEndpoints_ADFS_Returned:
  "AuthorityType ai = ADFS \<Longrightarrow> endpointCacheEntries s (CanonicalAuthorityURI ai) = Some e \<Longrightarrow>
   tryGetCachedEndpoints m ai upn s = (Returned x, s1) \<Longrightarrow> \<exists>d. getAdfsDomainFromUpn upn = Returned d"
  by (cases "getAdfsDomainFromUpn upn") (auto simp add: tryGetCachedEndpoints_def Let_def)

lemma addCachedEndpoints_ADFS_Returned:
  "AuthorityType ai = ADFS \<Longrightarrow> addCachedEndpoints m ai upn e s = (Returned u, s') \<Longrightarrow>
   \<exists>d. getAdfsDomainFromUpn upn = Returned d"
  by (cases "getAdfsDomainFromUpn upn") (auto simp add: addCachedEndpoints_def Let_def)

lemma getAdfsDomainFromUpn_Returned_nonempty:
  "getAdfsDomainFromUpn upn = Returned d \<Longrightarrow> upn \<noteq> []"
  by (auto simp add: getAdfsDomainFromUpn_def)

lemma tryGetCachedEndpoints_hit_entry:
  assumes "tryGetCachedEndpoints m ai upn s = (Returned (Some eps), s1)"
  shows "\<exists>e. endpointCacheEntries s (CanonicalAuthorityURI ai) = Some e \<and> Endpoints e = Some eps \<and>
           (AuthorityType ai = ADFS \<longrightarrow>
              (\<exists>d. getAdfsDomainFromUpn upn = Returned d \<and> d \<in> dom (ValidForDomainsInList e)))"
  using assms
  by (auto simp add: tryGetCachedEndpoints_def Let_def split: option.splits outcome.splits if_splits)

lemma ResolveEndpoints_success_entry:
  assumes "ResolveEndpoints mk m ai upn s = (Returned (Inr eps), s')"
  shows "\<exists>e. endpointCacheEntries s' (CanonicalAuthorityURI ai) = Some e \<and> Endpoints e = Some eps \<and>
           (AuthorityType ai = ADFS \<longrightarrow>
              (\<exists>d. getAdfsDomainFromUpn upn = Returned d \<and> d \<in> dom (ValidForDomainsInList e)))"
  using assms
proof (cases rule: ResolveEndpoints_success_cases)
  case hit
  from hit(2) have "s' = record_event (CacheLookup (CanonicalAuthorityURI ai)) s"
    by (rule tryGetCachedEndpoints_snd)
  with tryGetCachedEndpoints_hit_entry [OF hit(2)] show ?thesis by simp
next
  case (discovered em url r)
  show ?thesis
  proof (cases "AuthorityType ai = ADFS")
    case True
    from addCachedEndpoints_ADFS_Returned [OF True discovered(10)]
    obtain d where d: "getAdfsDomainFromUpn upn = Returned d" by blast
    from addCachedEndpoints_ADFS(3) [OF True d discovered(10)] d True
    show ?thesis by simp
  next
    case False
    from discovered(10) addCachedEndpoints_other [OF False] False
    show ?thesis by auto
  qed
qed

lemma ResolveEndpoints_served_from_entry:
  assumes "endpointCacheEntries s (CanonicalAuthorityURI ai) = Some e"
    and "Endpoints e = Some eps"
    and "AuthorityType ai = ADFS \<Longrightarrow>
           \<exists>d. getAdfsDomainFromUpn upn = Returned d \<and> d \<in> dom (ValidForDomainsInList e)"
  shows "ResolveEndpoints mk m ai upn s =
           (Returned (Inr eps), record_event (CacheLookup (CanonicalAuthorityURI ai)) s)"
proof (cases "AuthorityType ai = ADFS")
  case True
  with assms(3) obtain d where d: "getAdfsDomainFromUpn upn = Returned d"
    and v: "d \<in> dom (ValidForDomainsInList e)" by blast
  from d have ne: "\<not> (AuthorityType ai = ADFS \<and> upn = [])"
    by (auto dest: getAdfsDomainFromUpn_Returned_nonempty)
  from tryGetCachedEndpoints_ADFS_entry [OF assms(1) True d, of m] v assms(2)
  have "tryGetCachedEndpoints m ai upn s =
          (Returned (Some eps), record_event (CacheLookup (CanonicalAuthorityURI ai)) s)" by simp
  with ne show ?thesis by (rule ResolveEndpoints_hit)
next
  case False
  then have ne: "\<not> (AuthorityType ai = ADFS \<and> upn = [])" by simp
  from tryGetCachedEndpoints_other_entry [OF assms(1) False, of m upn] assms(2)
  have "tryGetCachedEndpoints m ai upn s =
          (Returned (Some eps), record_event (CacheLookup (CanonicalAuthorityURI ai)) s)" by simp
  with ne show ?thesis by (rule ResolveEndpoints_hit)
qed

lemma strings_Split_single_no_sep:
  "c \<notin> set s \<Longrightarrow> strings_Split s [c] = [s]"
  by (induction s) auto

lemma strings_Split_single_first:
  "c \<notin> set a \<Longrightarrow> strings_Split (a @ c # b) [c] = a # strings_Split b [c]"
  by (induction a) auto

lemma count_list_one_decompose:
  assumes "count_list xs c = 1"
  shows "\<exists>a b. xs = a @ c # b \<and> c \<notin> set a \<and> c \<notin> set b"
proof -
  from assms have "c \<in> set xs" using count_list_0_iff [of xs c] by auto
  then obtain a b where ab: "xs = a @ c # b" "c \<notin> set a"
    by (auto dest: split_list_first)
  with assms have "count_list b c = 0" by simp
  then have "c \<notin> set b" by (simp add: count_list_0_iff)
  with ab show ?thesis by blast
qed

lemma getAdfsDomainFromUpn_single_at:
  assumes "count_list upn CHR ''@'' = 1"
  shows "getAdfsDomainFromUpn upn = Returned (domain_after_last_at upn)"
proof -
  from count_list_one_decompose [OF assms]
  obtain a b where ab: "upn = a @ CHR ''@'' # b" "CHR ''@'' \<notin> set a" "CHR ''@'' \<notin> set b"
    by blast
  then have "strings_Split upn ''@'' = [a, b]"
    by (simp add: strings_Split_single_first strings_Split_single_no_sep)
  moreover from ab(3) have tw: "takeWhile (\<lambda>c. c \<noteq> CHR ''@'') (rev b) = rev b"
    by (auto simp add: takeWhile_eq_all_conv)
  have "domain_after_last_at upn = b"
    unfolding domain_after_last_at_def ab(1) by (simp add: takeWhile_tail tw)
  ultimately show ?thesis by (simp add: getAdfsDomainFromUpn_def)
qed

section \<open>Validation of the user principal name\<close>

text \<open>
  Claim C3. For an authority of type ADFS and an empty user principal name,
  \<open>ResolveEndpoints\<close> returns the error "UPN Required for Authority Validation for ADFS"
  (the spec's validation error) and the package state it returns is the state it was
  given: the trace has no new event, so neither the cache was consulted nor the
  Discovery Fetcher called, and the answer does not depend on the collaborators.
\<close>

theorem ResolveEndpoints_ADFS_empty_upn:
  "AuthorityType ai = ADFS \<Longrightarrow>
     ResolveEndpoints mk m ai [] s =
       (Returned (Inl (errors_New ''UPN Required for Authority Validation for ADFS'')), s)"
  by (simp add: ResolveEndpoints_def)

theorem ResolveEndpoints_ADFS_empty_upn_witness:
  "AuthorityType adfsAuthorityInfo = ADFS \<and>
   ResolveEndpoints testEndpointManagerFactory (mockManager tdr) adfsAuthorityInfo [] initial_state =
     (Returned (Inl (errors_New ''UPN Required for Authority Validation for ADFS'')), initial_state)"
  using ResolveEndpoints_ADFS_empty_upn
          [of adfsAuthorityInfo testEndpointManagerFactory "mockManager tdr" initial_state]
  by (simp add: adfsAuthorityInfo_def)

section \<open>Errors leave the cache alone\<close>

text \<open>
  Claim C10. Whenever \<open>ResolveEndpoints\<close> does not return endpoints (it returns an
  error: the missing UPN, a failure to build the endpoint manager or the metadata URL, a
  failure of the Discovery Fetcher, an incomplete document; or it panics), the map
  \<open>endpointCacheEntries\<close> after the call is the map before the call. The cache is
  written on the success path only.
\<close>

theorem ResolveEndpoints_failure_keeps_cache:
  "\<not> returns_endpoints (fst (ResolveEndpoints mk m ai upn s)) \<Longrightarrow>
   endpointCacheEntries (snd (ResolveEndpoints mk m ai upn s)) = endpointCacheEntries s"
  by (auto simp add: ResolveEndpoints_def tryGetCachedEndpoints_def Let_def returns_endpoints_def
      split: option.splits outcome.splits if_splits sum.splits prod.splits
      dest!: addCachedEndpoints_panic_keeps_cache)

theorem ResolveEndpoints_failure_keeps_cache_witness:
  "\<not> returns_endpoints
       (fst (ResolveEndpoints testEndpointManagerFactory failingManager testAuthorityInfo []
               initial_state)) \<and>
   endpointCacheEntries
     (snd (ResolveEndpoints testEndpointManagerFactory failingManager testAuthorityInfo []
             initial_state)) = endpointCacheEntries initial_state"
proof -
  have h: "\<not> returns_endpoints
       (fst (ResolveEndpoints testEndpointManagerFactory failingManager testAuthorityInfo []
               initial_state))"
    by (simp add: fixture_defs resolver_defs returns_endpoints_def)
  from h ResolveEndpoints_failure_keeps_cache [OF h] show ?thesis by blast
qed

section \<open>Incomplete discovery documents\<close>

text \<open>
  Claim C4. On a cache miss (\<open>tryGetCachedEndpoints\<close> returns \<^verbatim>\<open>nil\<close>), when the metadata
  URL could be derived and the Discovery Fetcher returned a document in which the
  authorization endpoint, the token endpoint or the issuer is empty, \<open>ResolveEndpoints\<close>
  returns an error and no endpoints: the error that names the first missing field (the
  spec's discovery error). The state it returns has the Discovery call in its trace and
  nothing after it, so the cache was not written.
\<close>

theorem ResolveEndpoints_incomplete_document:
  assumes "\<not> (AuthorityType ai = ADFS \<and> upn = [])"
    and "tryGetCachedEndpoints m ai upn s = (Returned None, s1)"
    and "mk ai = Inr em"
    and "getOpenIDConfigurationEndpoint em ai upn = Inr url"
    and "GetTenantDiscoveryResponse (webRequestManager m) url = Inr r"
    and "tdrAuthorizationEndpoint r = [] \<or> tdrTokenEndpoint r = [] \<or> tdrIssuer r = []"
  shows "ResolveEndpoints mk m ai upn s =
           (Returned (Inl (errors_New
              (if tdrAuthorizationEndpoint r = []
               then ''Authorize endpoint was not found in the openid configuration''
               else if tdrTokenEndpoint r = []
               then ''Token endpoint was not found in the openid configuration''
               else ''Issuer was not found in the openid configuration''))),
            record_event (Discovery url) s1)"
  using assms(6) ResolveEndpoints_miss [where mk = mk and em = em, OF assms(1-5)]
  by (auto simp add: HasAuthorizationEndpoint_def HasTokenEndpoint_def HasIssuer_def)

theorem ResolveEndpoints_incomplete_document_witness:
  "\<not> (AuthorityType testAuthorityInfo = ADFS \<and> ''user@x.com'' = []) \<and>
   tryGetCachedEndpoints (mockManager tdrNoIssuer) testAuthorityInfo ''user@x.com'' initial_state =
     (Returned None, record_event (CacheLookup ''https://login.test/contoso/'') initial_state) \<and>
   testEndpointManagerFactory testAuthorityInfo = Inr testEndpointManager \<and>
   getOpenIDConfigurationEndpoint testEndpointManager testAuthorityInfo ''user@x.com'' =
     Inr ''https://login.test/contoso/v2.0/.well-known/openid-configuration'' \<and>
   GetTenantDiscoveryResponse (webRequestManager (mockManager tdrNoIssuer))
     ''https://login.test/contoso/v2.0/.well-known/openid-configuration'' = Inr tdrNoIssuer \<and>
   (tdrAuthorizationEndpoint tdrNoIssuer = [] \<or> tdrTokenEndpoint tdrNoIssuer = [] \<or>
    tdrIssuer tdrNoIssuer = []) \<and>
   ResolveEndpoints testEndpointManagerFactory (mockManager tdrNoIssuer) testAuthorityInfo
       ''user@x.com'' initial_state =
     (Returned (Inl (errors_New ''Issuer was not found in the openid configuration'')),
      record_event (Discovery ''https://login.test/contoso/v2.0/.well-known/openid-configuration'')
        (record_event (CacheLookup ''https://login.test/contoso/'') initial_state))"
proof -
  have h1: "\<not> (AuthorityType testAuthorityInfo = ADFS \<and> ''user@x.com'' = [])"
    by simp
  have h2: "tryGetCachedEndpoints (mockManager tdrNoIssuer) testAuthorityInfo ''user@x.com''
              initial_state =
     (Returned None, record_event (CacheLookup ''https://login.test/contoso/'') initial_state)"
    by (simp add: tryGetCachedEndpoints_def testAuthorityInfo_def initial_state_def)
  have h3: "testEndpointManagerFactory testAuthorityInfo = Inr testEndpointManager"
    by (simp add: testEndpointManagerFactory_def)
  have h4: "getOpenIDConfigurationEndpoint testEndpointManager testAuthorityInfo ''user@x.com'' =
     Inr ''https://login.test/contoso/v2.0/.well-known/openid-configuration''"
    by (simp add: testEndpointManager_def testAuthorityInfo_def)
  have h5: "GetTenantDiscoveryResponse (webRequestManager (mockManager tdrNoIssuer))
     ''https://login.test/contoso/v2.0/.well-known/openid-configuration'' = Inr tdrNoIssuer"
    by (simp add: mockManager_def CreateAuthorityEndpointResolutionManager_def)
  have h6: "tdrAuthorizationEndpoint tdrNoIssuer = [] \<or> tdrTokenEndpoint tdrNoIssuer = [] \<or>
    tdrIssuer tdrNoIssuer = []"
    by (simp add: tdrNoIssuer_def)
  have c: "(if tdrAuthorizationEndpoint tdrNoIssuer = []
               then ''Authorize endpoint was not found in the openid configuration''
               else if tdrTokenEndpoint tdrNoIssuer = []
               then ''Token endpoint was not found in the openid configuration''
               else ''Issuer was not found in the openid configuration'') =
           ''Issuer was not found in the openid configuration''"
    by (simp add: tdrNoIssuer_def)
  from ResolveEndpoints_incomplete_document
         [where mk = testEndpointManagerFactory and em = testEndpointManager,
          OF h1 h2 h3 h4 h5 h6]
  have "ResolveEndpoints testEndpointManagerFactory (mockManager tdrNoIssuer) testAuthorityInfo
       ''user@x.com'' initial_state =
     (Returned (Inl (errors_New ''Issuer was not found in the openid configuration'')),
      record_event (Discovery ''https://login.test/contoso/v2.0/.well-known/openid-configuration'')
        (record_event (CacheLookup ''https://login.test/contoso/'') initial_state))"
    unfolding c .
  with h1 h2 h3 h4 h5 h6 show ?thesis by blast
qed

section \<open>The domain that the source extracts\<close>

lemma hd_strings_Split_single:
  "hd (strings_Split s [c]) = takeWhile (\<lambda>x. x \<noteq> c) s"
  by (induction s) (auto simp add: strings_Split_not_Nil split: list.splits)

lemma strings_Split_element_1:
  assumes "CHR ''@'' \<in> set upn"
  shows "strings_Split upn ''@'' ! 1 = domain_after_first_at upn"
    and "1 < length (strings_Split upn ''@'')"
proof -
  from assms obtain a b where ab: "upn = a @ CHR ''@'' # b" "CHR ''@'' \<notin> set a"
    by (auto dest: split_list_first)
  then have split: "strings_Split upn ''@'' = a # strings_Split b ''@''"
    by (simp add: strings_Split_single_first)
  have ne: "strings_Split b ''@'' \<noteq> []" by (rule strings_Split_not_Nil)
  then have "strings_Split b ''@'' ! 0 = hd (strings_Split b ''@'')"
    by (simp add: hd_conv_nth)
  with split have el: "strings_Split upn ''@'' ! 1 = takeWhile (\<lambda>x. x \<noteq> CHR ''@'') b"
    by (simp add: hd_strings_Split_single)
  from ab(2) have "dropWhile (\<lambda>c. c \<noteq> CHR ''@'') (a @ CHR ''@'' # b) = CHR ''@'' # b"
    by (subst dropWhile_append2) auto
  with ab(1) have "domain_after_first_at upn = takeWhile (\<lambda>x. x \<noteq> CHR ''@'') b"
    by (simp add: domain_after_first_at_def)
  with el show "strings_Split upn ''@'' ! 1 = domain_after_first_at upn" by simp
  from split ne show "1 < length (strings_Split upn ''@'')" by (cases "strings_Split b ''@''") auto
qed

lemma getAdfsDomainFromUpn_first_at:
  assumes "CHR ''@'' \<in> set upn"
  shows "getAdfsDomainFromUpn upn = Returned (domain_after_first_at upn)"
  using strings_Split_element_1 [OF assms] by (simp add: getAdfsDomainFromUpn_def)

section \<open>The cache check for ADFS authorities\<close>

text \<open>
  Claim C1 (amended). For an authority of type ADFS whose canonical URI has a cache entry
  with endpoints, and a user principal name that contains an @, \<open>ResolveEndpoints\<close>
  serves the cached endpoints, with the cache lookup as its only effect, if and only if
  the domain that the source extracts is a key of the entry's \<open>ValidForDomainsInList\<close>.
  That domain is element 1 of the name split at @, which is the text between the first
  @ and the next @ or the end of the name. When the name contains exactly one @ it is
  the substring after the last @.
\<close>

theorem ADFS_cached_endpoints_served_iff_domain_valid:
  assumes "AuthorityType ai = ADFS"
    and "endpointCacheEntries s (CanonicalAuthorityURI ai) = Some e"
    and "Endpoints e = Some eps"
    and "CHR ''@'' \<in> set upn"
  shows "((ResolveEndpoints mk m ai upn s =
            (Returned (Inr eps), record_event (CacheLookup (CanonicalAuthorityURI ai)) s))
          \<longleftrightarrow> domain_after_first_at upn \<in> dom (ValidForDomainsInList e))
       \<and> getAdfsDomainFromUpn upn = Returned (domain_after_first_at upn)
       \<and> strings_Split upn ''@'' ! 1 = domain_after_first_at upn
       \<and> (count_list upn CHR ''@'' = 1 \<longrightarrow>
            domain_after_first_at upn = domain_after_last_at upn)"
proof -
  note d = getAdfsDomainFromUpn_first_at [OF assms(4)]
  have "(ResolveEndpoints mk m ai upn s =
            (Returned (Inr eps), record_event (CacheLookup (CanonicalAuthorityURI ai)) s))
          \<longleftrightarrow> domain_after_first_at upn \<in> dom (ValidForDomainsInList e)"
  proof
    assume "domain_after_first_at upn \<in> dom (ValidForDomainsInList e)"
    with d show "ResolveEndpoints mk m ai upn s =
            (Returned (Inr eps), record_event (CacheLookup (CanonicalAuthorityURI ai)) s)"
      by (intro ResolveEndpoints_served_from_entry [OF assms(2) assms(3)]) blast
  next
    assume "ResolveEndpoints mk m ai upn s =
            (Returned (Inr eps), record_event (CacheLookup (CanonicalAuthorityURI ai)) s)"
    then show "domain_after_first_at upn \<in> dom (ValidForDomainsInList e)"
    proof (cases rule: ResolveEndpoints_success_cases)
      case hit
      with tryGetCachedEndpoints_ADFS_entry [OF assms(2) assms(1) d, of m]
      show ?thesis by (auto split: if_splits)
    next
      case (discovered em url r)
      from addCachedEndpoints_ADFS(2) [OF assms(1) d discovered(10)]
      show ?thesis by simp
    qed
  qed
  moreover have "count_list upn CHR ''@'' = 1 \<longrightarrow>
                   domain_after_first_at upn = domain_after_last_at upn"
  proof
    assume "count_list upn CHR ''@'' = 1"
    from getAdfsDomainFromUpn_single_at [OF this] d
    show "domain_after_first_at upn = domain_after_last_at upn" by simp
  qed
  ultimately show ?thesis
    using d strings_Split_element_1(1) [OF assms(4)] by blast
qed

text \<open>
  Two instances. In the first the name has two @ and the two readings of "domain"
  differ: the entry is valid for \<^verbatim>\<open>x.com\<close>, the text after the first @, and the cached
  endpoints are served, although the text after the last @, \<^verbatim>\<open>y.com\<close>, is not a valid
  domain of the entry. In the second the name has one @.
\<close>

theorem ADFS_cached_endpoints_served_iff_domain_valid_witness:
  "AuthorityType adfsAuthorityInfo = ADFS \<and>
   endpointCacheEntries adfsCachedStateX (CanonicalAuthorityURI adfsAuthorityInfo) =
     Some cachedEntryX \<and>
   Endpoints cachedEntryX = Some cachedEndpoints \<and>
   CHR ''@'' \<in> set ''user@x.com@y.com'' \<and>
   domain_after_first_at ''user@x.com@y.com'' = ''x.com'' \<and>
   domain_after_last_at ''user@x.com@y.com'' = ''y.com'' \<and>
   ''x.com'' \<in> dom (ValidForDomainsInList cachedEntryX) \<and>
   ''y.com'' \<notin> dom (ValidForDomainsInList cachedEntryX) \<and>
   ResolveEndpoints testEndpointManagerFactory failingManager adfsAuthorityInfo
       ''user@x.com@y.com'' adfsCachedStateX =
     (Returned (Inr cachedEndpoints),
      record_event (CacheLookup (CanonicalAuthorityURI adfsAuthorityInfo)) adfsCachedStateX) \<and>
   getAdfsDomainFromUpn ''user@x.com@y.com'' = Returned ''x.com'' \<and>
   strings_Split ''user@x.com@y.com'' ''@'' ! 1 = ''x.com'' \<and>
   endpointCacheEntries adfsCachedState (CanonicalAuthorityURI adfsAuthorityInfo) =
     Some cachedEntry \<and>
   Endpoints cachedEntry = Some cachedEndpoints \<and>
   CHR ''@'' \<in> set ''user@y.com'' \<and>
   count_list ''user@y.com'' CHR ''@'' = 1 \<and>
   domain_after_first_at ''user@y.com'' = ''y.com'' \<and>
   domain_after_last_at ''user@y.com'' = ''y.com'' \<and>
   ''y.com'' \<in> dom (ValidForDomainsInList cachedEntry) \<and>
   ResolveEndpoints testEndpointManagerFactory failingManager adfsAuthorityInfo ''user@y.com''
       adfsCachedState =
     (Returned (Inr cachedEndpoints),
      record_event (CacheLookup (CanonicalAuthorityURI adfsAuthorityInfo)) adfsCachedState)"
proof -
  have h1: "AuthorityType adfsAuthorityInfo = ADFS"
    by (simp add: adfsAuthorityInfo_def)
  have h2: "endpointCacheEntries adfsCachedStateX (CanonicalAuthorityURI adfsAuthorityInfo) =
              Some cachedEntryX"
    by (simp add: adfsAuthorityInfo_def adfsCachedStateX_def)
  have h3: "Endpoints cachedEntryX = Some cachedEndpoints"
    by (simp add: cachedEntryX_def)
  have h4: "CHR ''@'' \<in> set ''user@x.com@y.com''" by simp
  have f: "domain_after_first_at ''user@x.com@y.com'' = ''x.com''"
    by (simp add: domain_after_first_at_def)
  have l: "domain_after_last_at ''user@x.com@y.com'' = ''y.com''"
    by (simp add: domain_after_last_at_def)
  have v: "''x.com'' \<in> dom (ValidForDomainsInList cachedEntryX)"
    "''y.com'' \<notin> dom (ValidForDomainsInList cachedEntryX)"
    by (simp_all add: cachedEntryX_def)
  have k2: "endpointCacheEntries adfsCachedState (CanonicalAuthorityURI adfsAuthorityInfo) =
              Some cachedEntry"
    by (simp add: adfsAuthorityInfo_def adfsCachedState_def)
  have k3: "Endpoints cachedEntry = Some cachedEndpoints"
    by (simp add: cachedEntry_def)
  have k4: "CHR ''@'' \<in> set ''user@y.com''" by simp
  have k5: "count_list ''user@y.com'' CHR ''@'' = 1" by simp
  have kf: "domain_after_first_at ''user@y.com'' = ''y.com''"
    by (simp add: domain_after_first_at_def)
  have kv: "''y.com'' \<in> dom (ValidForDomainsInList cachedEntry)"
    by (simp add: cachedEntry_def)
  note two = ADFS_cached_endpoints_served_iff_domain_valid
         [OF h1 h2 h3 h4, of testEndpointManagerFactory failingManager, unfolded f]
  note one = ADFS_cached_endpoints_served_iff_domain_valid
         [OF h1 k2 k3 k4, of testEndpointManagerFactory failingManager, unfolded kf]
  from two one h1 h2 h3 h4 f l v k2 k3 k4 k5 kf kv
  show ?thesis by simp
qed

text \<open>
  The claim with the spec's "substring after the last @" fails on a name with two @: the
  entry is valid for \<^verbatim>\<open>y.com\<close>, the substring after the last @ of
  \<^verbatim>\<open>user@x.com@y.com\<close> is \<^verbatim>\<open>y.com\<close>, and yet the source looks \<^verbatim>\<open>x.com\<close> up, misses,
  and goes to the Discovery Fetcher.
\<close>

theorem ADFS_domain_after_last_at_counterexample:
  "domain_after_last_at ''user@x.com@y.com'' \<in> dom (ValidForDomainsInList cachedEntry) \<and>
   endpointCacheEntries adfsCachedState (CanonicalAuthorityURI adfsAuthorityInfo) = Some cachedEntry \<and>
   AuthorityType adfsAuthorityInfo = ADFS \<and>
   ResolveEndpoints testEndpointManagerFactory (mockManager tdr) adfsAuthorityInfo
       ''user@x.com@y.com'' adfsCachedState \<noteq>
     (Returned (Inr cachedEndpoints),
      record_event (CacheLookup (CanonicalAuthorityURI adfsAuthorityInfo)) adfsCachedState) \<and>
   trace (snd (ResolveEndpoints testEndpointManagerFactory (mockManager tdr) adfsAuthorityInfo
                 ''user@x.com@y.com'' adfsCachedState)) =
     [CacheLookup ''https://fs.test/adfs/'',
      Discovery ''https://fs.test/adfs/v2.0/.well-known/openid-configuration'',
      CacheLookup ''https://fs.test/adfs/'',
      CacheStore ''https://fs.test/adfs/'']"
  by (simp add: fixture_defs resolver_defs domain_after_last_at_def)

section \<open>The cache update for ADFS authorities\<close>

text \<open>
  Claim C2 (amended). For an authority of type ADFS whose canonical URI already has a
  cache entry, after every call of \<open>ResolveEndpoints\<close> that returns endpoints (in
  particular one that stored newly discovered endpoints over the entry) the entry at
  that URI holds the returned endpoints, and its set of valid domains is the set of the
  prior entry together with the domain that the source extracts from the user principal
  name: the text between the first @ and the next @ or the end of the name. Every domain
  recorded before is retained.
\<close>

theorem ADFS_discovery_unions_valid_domains:
  assumes "AuthorityType ai = ADFS"
    and "endpointCacheEntries s (CanonicalAuthorityURI ai) = Some old"
    and "ResolveEndpoints mk m ai upn s = (Returned (Inr eps), s')"
  shows "\<exists>e'. endpointCacheEntries s' (CanonicalAuthorityURI ai) = Some e' \<and>
           Endpoints e' = Some eps \<and>
           dom (ValidForDomainsInList e') =
             dom (ValidForDomainsInList old) \<union> {domain_after_first_at upn} \<and>
           dom (ValidForDomainsInList old) \<subseteq> dom (ValidForDomainsInList e') \<and>
           getAdfsDomainFromUpn upn = Returned (domain_after_first_at upn)"
  using assms(3)
proof (cases rule: ResolveEndpoints_success_cases)
  case hit
  from hit(2) have s': "s' = record_event (CacheLookup (CanonicalAuthorityURI ai)) s"
    by (rule tryGetCachedEndpoints_snd)
  from tryGetCachedEndpoints_hit_entry [OF hit(2)] assms(1) assms(2)
  obtain d where d: "getAdfsDomainFromUpn upn = Returned d" "Endpoints old = Some eps"
    "d \<in> dom (ValidForDomainsInList old)" by auto
  from d(1) have "CHR ''@'' \<in> set upn"
    using getAdfsDomainFromUpn_Returned_iff [of upn] by blast
  from getAdfsDomainFromUpn_first_at [OF this] d(1)
  have "d = domain_after_first_at upn" by simp
  with d s' assms(2) show ?thesis by (auto simp add: insert_absorb)
next
  case (discovered em url r)
  from addCachedEndpoints_ADFS_Returned [OF assms(1) discovered(10)]
  obtain d where d: "getAdfsDomainFromUpn upn = Returned d" by blast
  then have "CHR ''@'' \<in> set upn"
    using getAdfsDomainFromUpn_Returned_iff [of upn] by blast
  from getAdfsDomainFromUpn_first_at [OF this] d
  have eq: "d = domain_after_first_at upn" by simp
  from addCachedEndpoints_ADFS(3) [OF assms(1) d discovered(10)] assms(2) d eq
  show ?thesis by (auto simp add: dom_copyValidForDomains)
qed

text \<open>
  An instance in which the call stores over the entry and the name has two @: the prior
  entry is valid for \<^verbatim>\<open>y.com\<close>, the name is \<^verbatim>\<open>user@a.com@b.com\<close>, and the domain added is
  \<^verbatim>\<open>a.com\<close>.
\<close>

theorem ADFS_discovery_unions_valid_domains_witness:
  "AuthorityType adfsAuthorityInfo = ADFS \<and>
   endpointCacheEntries adfsCachedState (CanonicalAuthorityURI adfsAuthorityInfo) = Some cachedEntry \<and>
   ResolveEndpoints testEndpointManagerFactory (mockManager tdr) adfsAuthorityInfo
       ''user@a.com@b.com'' adfsCachedState =
     (Returned (Inr (CreateAuthorityEndpoints ''https://login.test/adfs/authorize''
                       ''https://login.test/adfs/token'' ''https://login.test/adfs'' ''fs.test'')),
      snd (ResolveEndpoints testEndpointManagerFactory (mockManager tdr) adfsAuthorityInfo
             ''user@a.com@b.com'' adfsCachedState)) \<and>
   domain_after_first_at ''user@a.com@b.com'' = ''a.com'' \<and>
   dom (ValidForDomainsInList cachedEntry) = {''y.com''} \<and>
   (\<exists>e'. endpointCacheEntries
        (snd (ResolveEndpoints testEndpointManagerFactory (mockManager tdr) adfsAuthorityInfo
                ''user@a.com@b.com'' adfsCachedState))
        (CanonicalAuthorityURI adfsAuthorityInfo) = Some e' \<and>
      Endpoints e' = Some (CreateAuthorityEndpoints ''https://login.test/adfs/authorize''
                       ''https://login.test/adfs/token'' ''https://login.test/adfs'' ''fs.test'') \<and>
      dom (ValidForDomainsInList e') = {''y.com''} \<union> {''a.com''} \<and>
      {''y.com''} \<subseteq> dom (ValidForDomainsInList e') \<and>
      getAdfsDomainFromUpn ''user@a.com@b.com'' = Returned ''a.com'')"
proof -
  have h1: "AuthorityType adfsAuthorityInfo = ADFS"
    by (simp add: adfsAuthorityInfo_def)
  have h2: "endpointCacheEntries adfsCachedState (CanonicalAuthorityURI adfsAuthorityInfo) =
              Some cachedEntry"
    by (simp add: adfsAuthorityInfo_def adfsCachedState_def)
  have h3: "ResolveEndpoints testEndpointManagerFactory (mockManager tdr) adfsAuthorityInfo
       ''user@a.com@b.com'' adfsCachedState =
     (Returned (Inr (CreateAuthorityEndpoints ''https://login.test/adfs/authorize''
                       ''https://login.test/adfs/token'' ''https://login.test/adfs'' ''fs.test'')),
      snd (ResolveEndpoints testEndpointManagerFactory (mockManager tdr) adfsAuthorityInfo
             ''user@a.com@b.com'' adfsCachedState))"
    by (simp add: prod_eq_iff fixture_defs resolver_defs)
  have f: "domain_after_first_at ''user@a.com@b.com'' = ''a.com''"
    by (simp add: domain_after_first_at_def)
  have o: "dom (ValidForDomainsInList cachedEntry) = {''y.com''}"
    by (simp add: cachedEntry_def)
  from ADFS_discovery_unions_valid_domains [OF h1 h2 h3, unfolded f o] h1 h2 h3 f o
  show ?thesis by blast
qed

text \<open>
  The claim with the spec's domain, the substring after the last @, fails on the same
  input: the call stores newly discovered endpoints over the entry that was valid for
  \<^verbatim>\<open>y.com\<close>; the substring after the last @ of \<^verbatim>\<open>user@a.com@b.com\<close> is \<^verbatim>\<open>b.com\<close>, and
  the new entry is valid for \<^verbatim>\<open>y.com\<close> and \<^verbatim>\<open>a.com\<close> but not for \<^verbatim>\<open>b.com\<close>.
\<close>

theorem ADFS_union_domain_after_last_at_counterexample:
  "AuthorityType adfsAuthorityInfo = ADFS \<and>
   endpointCacheEntries adfsCachedState ''https://fs.test/adfs/'' = Some cachedEntry \<and>
   dom (ValidForDomainsInList cachedEntry) = {''y.com''} \<and>
   domain_after_last_at ''user@a.com@b.com'' = ''b.com'' \<and>
   fst (ResolveEndpoints testEndpointManagerFactory (mockManager tdr) adfsAuthorityInfo
          ''user@a.com@b.com'' adfsCachedState) =
     Returned (Inr (CreateAuthorityEndpoints ''https://login.test/adfs/authorize''
                      ''https://login.test/adfs/token'' ''https://login.test/adfs'' ''fs.test'')) \<and>
   trace (snd (ResolveEndpoints testEndpointManagerFactory (mockManager tdr) adfsAuthorityInfo
                 ''user@a.com@b.com'' adfsCachedState)) =
     [CacheLookup ''https://fs.test/adfs/'',
      Discovery ''https://fs.test/adfs/v2.0/.well-known/openid-configuration'',
      CacheLookup ''https://fs.test/adfs/'',
      CacheStore ''https://fs.test/adfs/''] \<and>
   (case endpointCacheEntries
           (snd (ResolveEndpoints testEndpointManagerFactory (mockManager tdr) adfsAuthorityInfo
                   ''user@a.com@b.com'' adfsCachedState)) ''https://fs.test/adfs/'' of
      None \<Rightarrow> False
    | Some e' \<Rightarrow>
        ValidForDomainsInList e' ''y.com'' = Some True \<and>
        ValidForDomainsInList e' ''a.com'' = Some True \<and>
        ValidForDomainsInList e' ''b.com'' = None \<and>
        dom (ValidForDomainsInList e') \<noteq>
          dom (ValidForDomainsInList cachedEntry) \<union> {domain_after_last_at ''user@a.com@b.com''})"
proof -
  let ?after = "snd (ResolveEndpoints testEndpointManagerFactory (mockManager tdr)
                       adfsAuthorityInfo ''user@a.com@b.com'' adfsCachedState)"
  have h1: "AuthorityType adfsAuthorityInfo = ADFS"
    by (simp add: adfsAuthorityInfo_def)
  have h2: "endpointCacheEntries adfsCachedState ''https://fs.test/adfs/'' = Some cachedEntry"
    by (simp add: adfsCachedState_def)
  have h3: "dom (ValidForDomainsInList cachedEntry) = {''y.com''}"
    by (simp add: cachedEntry_def)
  have l: "domain_after_last_at ''user@a.com@b.com'' = ''b.com''"
    by (simp add: domain_after_last_at_def)
  have r: "fst (ResolveEndpoints testEndpointManagerFactory (mockManager tdr) adfsAuthorityInfo
          ''user@a.com@b.com'' adfsCachedState) =
     Returned (Inr (CreateAuthorityEndpoints ''https://login.test/adfs/authorize''
                      ''https://login.test/adfs/token'' ''https://login.test/adfs'' ''fs.test''))"
    by (simp add: fixture_defs resolver_defs)
  have t: "trace ?after =
     [CacheLookup ''https://fs.test/adfs/'',
      Discovery ''https://fs.test/adfs/v2.0/.well-known/openid-configuration'',
      CacheLookup ''https://fs.test/adfs/'',
      CacheStore ''https://fs.test/adfs/'']"
    by (simp add: fixture_defs resolver_defs)
  have c: "case endpointCacheEntries ?after ''https://fs.test/adfs/'' of
             None \<Rightarrow> False
           | Some e' \<Rightarrow>
               ValidForDomainsInList e' ''y.com'' = Some True \<and>
               ValidForDomainsInList e' ''a.com'' = Some True \<and>
               ValidForDomainsInList e' ''b.com'' = None"
    by (simp add: fixture_defs resolver_defs)
  have ne: "dom f \<noteq> insert ''b.com'' A" if "f ''b.com'' = None" for f :: "string \<rightharpoonup> bool" and A
  proof
    assume "dom f = insert ''b.com'' A"
    then have "''b.com'' \<in> dom f" by blast
    with that show False by (simp add: domIff)
  qed
  from c have "case endpointCacheEntries ?after ''https://fs.test/adfs/'' of
      None \<Rightarrow> False
    | Some e' \<Rightarrow>
        ValidForDomainsInList e' ''y.com'' = Some True \<and>
        ValidForDomainsInList e' ''a.com'' = Some True \<and>
        ValidForDomainsInList e' ''b.com'' = None \<and>
        dom (ValidForDomainsInList e') \<noteq>
          dom (ValidForDomainsInList cachedEntry) \<union> {domain_after_last_at ''user@a.com@b.com''}"
    unfolding l by (cases "endpointCacheEntries ?after ''https://fs.test/adfs/''") (simp_all add: ne)
  with h1 h2 h3 l r t show ?thesis by blast
qed

section \<open>Resolving twice\<close>

text \<open>
  Claim C5 (amended). For an authority that is not of type ADFS (the spec's
  StandardProvider), after a call of \<open>ResolveEndpoints\<close> that returned endpoints, a
  second call for the same canonical URI, with any user principal name and through any
  manager, returns the same endpoints from the cache: its only effect is the cache
  lookup, and it makes no call to the Discovery Fetcher. The two calls together make
  exactly one Discovery call when the first call found no entry with endpoints at the
  URI, and none when the first call was itself served from the package-level cache.
\<close>

theorem standard_second_resolution_from_cache:
  assumes "AuthorityType ai \<noteq> ADFS"
    and "AuthorityType ai' \<noteq> ADFS"
    and "CanonicalAuthorityURI ai' = CanonicalAuthorityURI ai"
    and "ResolveEndpoints mk m ai upn s = (Returned (Inr eps), s1)"
  shows "ResolveEndpoints mk' m' ai' upn' s1 =
           (Returned (Inr eps), record_event (CacheLookup (CanonicalAuthorityURI ai)) s1)
       \<and> discovery_calls (trace (record_event (CacheLookup (CanonicalAuthorityURI ai)) s1)) =
           discovery_calls (trace s) +
             (case endpointCacheEntries s (CanonicalAuthorityURI ai) of
                None \<Rightarrow> 1
              | Some e \<Rightarrow> (case Endpoints e of None \<Rightarrow> 1 | Some cached \<Rightarrow> 0))"
proof (intro conjI)
  from ResolveEndpoints_success_entry [OF assms(4)] assms(3)
  obtain e where e: "endpointCacheEntries s1 (CanonicalAuthorityURI ai') = Some e"
    "Endpoints e = Some eps" by auto
  from ResolveEndpoints_served_from_entry [OF e(1) e(2), of upn' mk' m'] assms(2) assms(3)
  show "ResolveEndpoints mk' m' ai' upn' s1 =
           (Returned (Inr eps), record_event (CacheLookup (CanonicalAuthorityURI ai)) s1)"
    by simp
next
  from assms(4)
  show "discovery_calls (trace (record_event (CacheLookup (CanonicalAuthorityURI ai)) s1)) =
          discovery_calls (trace s) +
             (case endpointCacheEntries s (CanonicalAuthorityURI ai) of
                None \<Rightarrow> 1
              | Some e \<Rightarrow> (case Endpoints e of None \<Rightarrow> 1 | Some cached \<Rightarrow> 0))"
  proof (cases rule: ResolveEndpoints_success_cases)
    case hit
    from hit(2) have "s1 = record_event (CacheLookup (CanonicalAuthorityURI ai)) s"
      by (rule tryGetCachedEndpoints_snd)
    with tryGetCachedEndpoints_hit_entry [OF hit(2)] show ?thesis
      by (auto simp add: discovery_calls_def is_Discovery_def)
  next
    case (discovered em url r)
    from discovered(10) addCachedEndpoints_other [OF assms(1)]
    have tr: "trace s1 = trace s @ [CacheLookup (CanonicalAuthorityURI ai), Discovery url,
                                CacheStore (CanonicalAuthorityURI ai)]"
      by auto
    from discovered(2) assms(1)
    have "(case endpointCacheEntries s (CanonicalAuthorityURI ai) of
                None \<Rightarrow> 1
              | Some e \<Rightarrow> (case Endpoints e of None \<Rightarrow> 1 | Some cached \<Rightarrow> 0)) = (1::nat)"
      by (auto simp add: tryGetCachedEndpoints_def Let_def split: option.splits)
    with tr show ?thesis by (simp add: discovery_calls_def is_Discovery_def)
  qed
qed

text \<open>
  Two instances: the first call misses (the initial state) and the pair makes one
  Discovery call; the first call hits (the state after an earlier resolution) and the
  pair makes none.
\<close>

theorem standard_second_resolution_from_cache_witness:
  "AuthorityType testAuthorityInfo \<noteq> ADFS \<and>
   CanonicalAuthorityURI testAuthorityInfo = CanonicalAuthorityURI testAuthorityInfo \<and>
   ResolveEndpoints testEndpointManagerFactory (mockManager tdr) testAuthorityInfo [] initial_state =
     (Returned (Inr resolvedEndpoints), resolvedState) \<and>
   endpointCacheEntries initial_state (CanonicalAuthorityURI testAuthorityInfo) = None \<and>
   ResolveEndpoints testEndpointManagerFactory failingManager testAuthorityInfo ''user@x.com''
       resolvedState =
     (Returned (Inr resolvedEndpoints),
      record_event (CacheLookup (CanonicalAuthorityURI testAuthorityInfo)) resolvedState) \<and>
   discovery_calls
     (trace (record_event (CacheLookup (CanonicalAuthorityURI testAuthorityInfo)) resolvedState)) =
     discovery_calls (trace initial_state) + 1 \<and>
   ResolveEndpoints testEndpointManagerFactory failingManager testAuthorityInfo ''user@x.com''
       (record_event (CacheLookup (CanonicalAuthorityURI testAuthorityInfo)) resolvedState) =
     (Returned (Inr resolvedEndpoints),
      record_event (CacheLookup (CanonicalAuthorityURI testAuthorityInfo))
        (record_event (CacheLookup (CanonicalAuthorityURI testAuthorityInfo)) resolvedState)) \<and>
   discovery_calls
     (trace (record_event (CacheLookup (CanonicalAuthorityURI testAuthorityInfo))
               (record_event (CacheLookup (CanonicalAuthorityURI testAuthorityInfo))
                  resolvedState))) =
     discovery_calls (trace resolvedState) + 0"
proof -
  have h1: "AuthorityType testAuthorityInfo \<noteq> ADFS"
    by (simp add: testAuthorityInfo_def)
  have h3: "CanonicalAuthorityURI testAuthorityInfo = CanonicalAuthorityURI testAuthorityInfo"
    by (rule refl)
  have h4: "ResolveEndpoints testEndpointManagerFactory (mockManager tdr) testAuthorityInfo []
              initial_state = (Returned (Inr resolvedEndpoints), resolvedState)"
    unfolding resolvedState_def
    by (simp add: prod_eq_iff fixture_defs resolver_defs)
  have h5: "endpointCacheEntries initial_state (CanonicalAuthorityURI testAuthorityInfo) = None"
    by (simp add: initial_state_def)
  note first = standard_second_resolution_from_cache
         [OF h1 h1 h3 h4, of testEndpointManagerFactory failingManager "''user@x.com''"]
  from first have h6: "ResolveEndpoints testEndpointManagerFactory failingManager testAuthorityInfo
       ''user@x.com'' resolvedState =
     (Returned (Inr resolvedEndpoints),
      record_event (CacheLookup (CanonicalAuthorityURI testAuthorityInfo)) resolvedState)"
    by blast
  have c: "(case endpointCacheEntries resolvedState (CanonicalAuthorityURI testAuthorityInfo) of
              None \<Rightarrow> 1
            | Some e \<Rightarrow> (case Endpoints e of None \<Rightarrow> 1 | Some cached \<Rightarrow> 0)) = (0::nat)"
    by (simp add: fixture_defs resolver_defs)
  note second = standard_second_resolution_from_cache
         [OF h1 h1 h3 h6, of testEndpointManagerFactory failingManager "''user@x.com''",
          unfolded c]
  from first second h1 h3 h4 h5 show ?thesis by simp
qed

text \<open>
  The claim's "exactly one discovery call across the two resolutions" fails when the
  package-level cache already holds the authority: starting from the state that an
  earlier resolution left, two resolutions in a row both return the cached endpoints,
  and the trace of the two has two cache lookups and no Discovery call.
\<close>

theorem standard_two_resolutions_no_discovery_counterexample:
  "AuthorityType testAuthorityInfo \<noteq> ADFS \<and>
   trace resolvedState =
     [CacheLookup ''https://login.test/contoso/'',
      Discovery ''https://login.test/contoso/v2.0/.well-known/openid-configuration'',
      CacheStore ''https://login.test/contoso/''] \<and>
   fst (ResolveEndpoints testEndpointManagerFactory (mockManager tdr) testAuthorityInfo []
          resolvedState) = Returned (Inr resolvedEndpoints) \<and>
   fst (ResolveEndpoints testEndpointManagerFactory (mockManager tdr) testAuthorityInfo []
          (snd (ResolveEndpoints testEndpointManagerFactory (mockManager tdr) testAuthorityInfo []
                  resolvedState))) = Returned (Inr resolvedEndpoints) \<and>
   trace (snd (ResolveEndpoints testEndpointManagerFactory (mockManager tdr) testAuthorityInfo []
          (snd (ResolveEndpoints testEndpointManagerFactory (mockManager tdr) testAuthorityInfo []
                  resolvedState)))) =
     trace resolvedState @
       [CacheLookup ''https://login.test/contoso/'', CacheLookup ''https://login.test/contoso/''] \<and>
   discovery_calls
     (trace (snd (ResolveEndpoints testEndpointManagerFactory (mockManager tdr) testAuthorityInfo []
          (snd (ResolveEndpoints testEndpointManagerFactory (mockManager tdr) testAuthorityInfo []
                  resolvedState))))) = discovery_calls (trace resolvedState) \<and>
   discovery_calls
     (trace (snd (ResolveEndpoints testEndpointManagerFactory (mockManager tdr) testAuthorityInfo []
          (snd (ResolveEndpoints testEndpointManagerFactory (mockManager tdr) testAuthorityInfo []
                  resolvedState))))) \<noteq> discovery_calls (trace resolvedState) + 1"
  by (simp add: fixture_defs resolver_defs discovery_calls_def is_Discovery_def)

section \<open>One cache for every manager\<close>

text \<open>
  Claim C8 (amended). The endpoint cache is the package-level variable
  \<open>endpointCacheEntries\<close>, shared by all managers of the process: once a call of
  \<open>ResolveEndpoints\<close> through one manager has returned endpoints, the same request through
  any other manager (with any other Discovery Fetcher and endpoint manager factory)
  returns these endpoints from the cache, with the cache lookup as its only effect.
\<close>

theorem endpoint_cache_shared_between_managers:
  assumes "ResolveEndpoints mk1 m1 ai upn s = (Returned (Inr eps), s1)"
  shows "ResolveEndpoints mk2 m2 ai upn s1 =
           (Returned (Inr eps), record_event (CacheLookup (CanonicalAuthorityURI ai)) s1)"
proof -
  from ResolveEndpoints_success_entry [OF assms]
  obtain e where e: "endpointCacheEntries s1 (CanonicalAuthorityURI ai) = Some e"
    "Endpoints e = Some eps"
    "AuthorityType ai = ADFS \<longrightarrow>
       (\<exists>d. getAdfsDomainFromUpn upn = Returned d \<and> d \<in> dom (ValidForDomainsInList e))"
    by blast
  show ?thesis
    by (rule ResolveEndpoints_served_from_entry [OF e(1) e(2)]) (use e(3) in blast)
qed

theorem endpoint_cache_shared_between_managers_witness:
  "ResolveEndpoints testEndpointManagerFactory (mockManager tdr) adfsAuthorityInfo ''user@x.com''
       initial_state =
     (Returned (Inr (CreateAuthorityEndpoints ''https://login.test/adfs/authorize''
                       ''https://login.test/adfs/token'' ''https://login.test/adfs'' ''fs.test'')),
      snd (ResolveEndpoints testEndpointManagerFactory (mockManager tdr) adfsAuthorityInfo
             ''user@x.com'' initial_state)) \<and>
   ResolveEndpoints testEndpointManagerFactory (mockManager tdrOther) adfsAuthorityInfo
       ''user@x.com''
       (snd (ResolveEndpoints testEndpointManagerFactory (mockManager tdr) adfsAuthorityInfo
               ''user@x.com'' initial_state)) =
     (Returned (Inr (CreateAuthorityEndpoints ''https://login.test/adfs/authorize''
                       ''https://login.test/adfs/token'' ''https://login.test/adfs'' ''fs.test'')),
      record_event (CacheLookup (CanonicalAuthorityURI adfsAuthorityInfo))
        (snd (ResolveEndpoints testEndpointManagerFactory (mockManager tdr) adfsAuthorityInfo
                ''user@x.com'' initial_state)))"
proof -
  have h: "ResolveEndpoints testEndpointManagerFactory (mockManager tdr) adfsAuthorityInfo
       ''user@x.com'' initial_state =
     (Returned (Inr (CreateAuthorityEndpoints ''https://login.test/adfs/authorize''
                       ''https://login.test/adfs/token'' ''https://login.test/adfs'' ''fs.test'')),
      snd (ResolveEndpoints testEndpointManagerFactory (mockManager tdr) adfsAuthorityInfo
             ''user@x.com'' initial_state))"
    by (simp add: prod_eq_iff fixture_defs resolver_defs)
  from endpoint_cache_shared_between_managers
         [OF h, of testEndpointManagerFactory "mockManager tdrOther"] h
  show ?thesis by blast
qed

text \<open>
  The claim that the cache is scoped to one manager fails: two managers with different
  Discovery Fetchers resolve the same authority. Alone, the second manager goes to its
  own fetcher and returns what that fetcher answers. After a resolution through the
  first manager, the second one makes no Discovery call and returns the endpoints that
  the first manager's fetcher answered.
\<close>

theorem endpoint_cache_instance_scoped_counterexample:
  "GetTenantDiscoveryResponse (webRequestManager (mockManager tdr)) [] \<noteq>
     GetTenantDiscoveryResponse (webRequestManager (mockManager tdrOther)) [] \<and>
   fst (ResolveEndpoints testEndpointManagerFactory (mockManager tdrOther) testAuthorityInfo []
          initial_state) =
     Returned (Inr (CreateAuthorityEndpoints ''https://other.test/authorize''
                      ''https://other.test/token'' ''https://other.test'' ''login.test'')) \<and>
   trace (snd (ResolveEndpoints testEndpointManagerFactory (mockManager tdrOther)
                 testAuthorityInfo [] initial_state)) =
     [CacheLookup ''https://login.test/contoso/'',
      Discovery ''https://login.test/contoso/v2.0/.well-known/openid-configuration'',
      CacheStore ''https://login.test/contoso/''] \<and>
   fst (ResolveEndpoints testEndpointManagerFactory (mockManager tdrOther) testAuthorityInfo []
          (snd (ResolveEndpoints testEndpointManagerFactory (mockManager tdr) testAuthorityInfo []
                  initial_state))) =
     Returned (Inr (CreateAuthorityEndpoints ''https://login.test/contoso/authorize''
                      ''https://login.test/contoso/token'' ''https://login.test/contoso''
                      ''login.test'')) \<and>
   trace (snd (ResolveEndpoints testEndpointManagerFactory (mockManager tdrOther)
                 testAuthorityInfo []
                 (snd (ResolveEndpoints testEndpointManagerFactory (mockManager tdr)
                         testAuthorityInfo [] initial_state)))) =
     [CacheLookup ''https://login.test/contoso/'',
      Discovery ''https://login.test/contoso/v2.0/.well-known/openid-configuration'',
      CacheStore ''https://login.test/contoso/'',
      CacheLookup ''https://login.test/contoso/'']"
  by (simp add: fixture_defs resolver_defs)

section \<open>User principal names without an @\<close>

lemma ResolveEndpoints_Returned_if_domain:
  assumes "getAdfsDomainFromUpn upn = Returned d"
  shows "\<exists>r s'. ResolveEndpoints mk m ai upn s = (Returned r, s')"
  using assms
  by (auto simp add: ResolveEndpoints_def tryGetCachedEndpoints_def addCachedEndpoints_def Let_def
        split: option.splits sum.splits)

lemma ResolveEndpoints_ADFS_entry_panics:
  assumes "AuthorityType ai = ADFS" and "upn \<noteq> []"
    and "endpointCacheEntries s (CanonicalAuthorityURI ai) = Some e"
    and "getAdfsDomainFromUpn upn = Panicked p"
  shows "ResolveEndpoints mk m ai upn s =
           (Panicked p, record_event (CacheLookup (CanonicalAuthorityURI ai)) s)"
  using assms by (simp add: ResolveEndpoints_def tryGetCachedEndpoints_def Let_def)

text \<open>
  Claim C9. For an authority of type ADFS and a non-empty user principal name,
  \<open>ResolveEndpoints\<close> returns (endpoints or an error) in every package state and with
  every collaborator if and only if the name contains an @. For a name without @ the
  domain extraction indexes element 1 of a split that has one element and panics; this
  is what \<open>ResolveEndpoints\<close> does, instead of returning an error, as soon as the
  authority has a cache entry.
\<close>

theorem ADFS_total_iff_upn_has_at:
  assumes "AuthorityType ai = ADFS" and "upn \<noteq> []"
  shows "((\<forall>mk m s. \<exists>r s'. ResolveEndpoints mk m ai upn s = (Returned r, s'))
            \<longleftrightarrow> CHR ''@'' \<in> set upn)
       \<and> (CHR ''@'' \<notin> set upn \<longrightarrow>
            getAdfsDomainFromUpn upn = Panicked (index_out_of_range 1 1) \<and>
            (\<forall>mk m s e. endpointCacheEntries s (CanonicalAuthorityURI ai) = Some e \<longrightarrow>
               ResolveEndpoints mk m ai upn s =
                 (Panicked (index_out_of_range 1 1),
                  record_event (CacheLookup (CanonicalAuthorityURI ai)) s)))"
proof (intro conjI iffI impI allI)
  assume "CHR ''@'' \<in> set upn"
  then obtain d where d: "getAdfsDomainFromUpn upn = Returned d"
    using getAdfsDomainFromUpn_Returned_iff [of upn] by blast
  fix mk m s
  show "\<exists>r s'. ResolveEndpoints mk m ai upn s = (Returned r, s')"
    by (rule ResolveEndpoints_Returned_if_domain [OF d])
next
  assume total: "\<forall>mk m s. \<exists>r s'. ResolveEndpoints mk m ai upn s = (Returned r, s')"
  show "CHR ''@'' \<in> set upn"
  proof (rule ccontr)
    assume no_at: "CHR ''@'' \<notin> set upn"
    let ?s = "\<lparr>endpointCacheEntries =
                 [CanonicalAuthorityURI ai \<mapsto> createAuthorityEndpointCacheEntry None],
               trace = []\<rparr>"
    have "endpointCacheEntries ?s (CanonicalAuthorityURI ai) =
            Some (createAuthorityEndpointCacheEntry None)" by simp
    from ResolveEndpoints_ADFS_entry_panics
           [OF assms this getAdfsDomainFromUpn_no_at [OF no_at],
            of testEndpointManagerFactory failingManager]
    have "ResolveEndpoints testEndpointManagerFactory failingManager ai upn ?s =
            (Panicked (index_out_of_range 1 1),
             record_event (CacheLookup (CanonicalAuthorityURI ai)) ?s)" .
    moreover from total obtain r s' where
      "ResolveEndpoints testEndpointManagerFactory failingManager ai upn ?s = (Returned r, s')"
      by blast
    ultimately show False by simp
  qed
next
  assume "CHR ''@'' \<notin> set upn"
  then show "getAdfsDomainFromUpn upn = Panicked (index_out_of_range 1 1)"
    by (rule getAdfsDomainFromUpn_no_at)
next
  fix mk m and s :: package_state and e
  assume "CHR ''@'' \<notin> set upn"
    and "endpointCacheEntries s (CanonicalAuthorityURI ai) = Some e"
  with assms show "ResolveEndpoints mk m ai upn s =
                 (Panicked (index_out_of_range 1 1),
                  record_event (CacheLookup (CanonicalAuthorityURI ai)) s)"
    by (intro ResolveEndpoints_ADFS_entry_panics getAdfsDomainFromUpn_no_at)
qed

theorem ADFS_total_iff_upn_has_at_witness:
  "AuthorityType adfsAuthorityInfo = ADFS \<and> ''user'' \<noteq> [] \<and> CHR ''@'' \<notin> set ''user'' \<and>
   endpointCacheEntries adfsCachedState (CanonicalAuthorityURI adfsAuthorityInfo) = Some cachedEntry \<and>
   \<not> (\<forall>mk m s. \<exists>r s'. ResolveEndpoints mk m adfsAuthorityInfo ''user'' s = (Returned r, s')) \<and>
   getAdfsDomainFromUpn ''user'' = Panicked (index_out_of_range 1 1) \<and>
   ResolveEndpoints testEndpointManagerFactory (mockManager tdr) adfsAuthorityInfo ''user''
       adfsCachedState =
     (Panicked (index_out_of_range 1 1),
      record_event (CacheLookup (CanonicalAuthorityURI adfsAuthorityInfo)) adfsCachedState)"
proof -
  have h1: "AuthorityType adfsAuthorityInfo = ADFS"
    by (simp add: adfsAuthorityInfo_def)
  have h2: "''user'' \<noteq> []" by simp
  have h3: "CHR ''@'' \<notin> set ''user''" by simp
  have h4: "endpointCacheEntries adfsCachedState (CanonicalAuthorityURI adfsAuthorityInfo) =
              Some cachedEntry"
    by (simp add: adfsAuthorityInfo_def adfsCachedState_def)
  from ADFS_total_iff_upn_has_at [OF h1 h2] h1 h2 h3 h4
  show ?thesis by blast
qed

section \<open>Substitution of the tenant\<close>

lemma every_occurrence_replaced_Cons:
  assumes "every_occurrence_replaced old new s t" and "\<not> prefix old (c # s)"
  shows "every_occurrence_replaced old new (c # s) (c # t)"
  using assms
proof (cases rule: every_occurrence_replaced.cases)
  case no_occurrence
  with assms(2) have "\<not> sublist old (c # s)"
    by (simp add: sublist_Cons_right)
  with no_occurrence show ?thesis
    by (simp add: every_occurrence_replaced.no_occurrence)
next
  case (occurrence p s' t')
  from assms(2) occurrence(1) have "\<not> prefix old (c # p)"
    by (metis append_Cons prefix_order.trans prefixI)
  with occurrence(3) have "\<not> sublist old (c # p)"
    by (simp add: sublist_Cons_right)
  from every_occurrence_replaced.occurrence [OF this occurrence(4)] occurrence(1,2)
  show ?thesis by simp
qed

lemma strings_Replace_every_occurrence:
  assumes "old \<noteq> []" and "n < 0"
  shows "every_occurrence_replaced old new s (strings_Replace s old new n)"
  using assms
proof (induction s old new n rule: strings_Replace.induct)
  case (1 old new n)
  then show ?case by (simp add: every_occurrence_replaced.no_occurrence)
next
  case (2 c cs old new n)
  show ?case
  proof (cases "prefix old (c # cs)")
    case True
    then obtain rest where rest: "c # cs = old @ rest" by (auto simp add: prefix_def)
    then have dr: "drop (length old) (c # cs) = rest" by simp
    from 2 True have "every_occurrence_replaced old new rest
                        (strings_Replace rest old new (n - 1))"
      by (simp add: dr)
    from every_occurrence_replaced.occurrence [of old "[]", OF _ this] "2.prems"(1)
    have step: "every_occurrence_replaced old new (old @ rest)
            (new @ strings_Replace rest old new (n - 1))" by simp
    from "2.prems" True have "strings_Replace (c # cs) old new n =
            new @ strings_Replace rest old new (n - 1)"
      by (simp add: dr del: drop_Suc_Cons)
    with step show ?thesis unfolding rest by simp
  next
    case False
    with 2 have "every_occurrence_replaced old new cs (strings_Replace cs old new n)" by simp
    from every_occurrence_replaced_Cons [OF this False] 2 False show ?thesis by simp
  qed
qed

text \<open>
  For a placeholder whose first character does not occur again in it, as in
  \<^verbatim>\<open>{tenant}\<close>, the occurrences cannot overlap and the relation determines its result:
  it is the result of \<open>strings_Replace\<close>.
\<close>

lemma strings_Replace_no_occurrence:
  "\<not> sublist old s \<Longrightarrow> strings_Replace s old new n = s"
  by (induction s) (auto simp add: sublist_Cons_right)

lemma no_straddling_occurrence:
  assumes "old = fst_old # rest_old" and "fst_old \<notin> set rest_old"
    and "\<not> prefix old (c # p)"
  shows "\<not> prefix old (c # p @ old @ s)"
proof
  assume "prefix old (c # p @ old @ s)"
  then have "prefix old ((c # p) @ old @ s)" by simp
  with assms(3) obtain zs where zs: "old = (c # p) @ zs" "prefix zs (old @ s)"
    unfolding prefix_append by blast
  from zs(1) assms(3) have "zs \<noteq> []" by auto
  then obtain z zs' where z: "zs = z # zs'" by (cases zs) auto
  with zs(2) assms(1) have "z = fst_old" by simp
  moreover from zs(1) z assms(1) have "z \<in> set rest_old" by auto
  ultimately show False using assms(2) by simp
qed

lemma strings_Replace_first_occurrence:
  assumes "old = fst_old # rest_old" and "fst_old \<notin> set rest_old" and "\<not> sublist old p" and "n < 0"
  shows "strings_Replace (p @ old @ s) old new n = p @ new @ strings_Replace s old new (n - 1)"
  using assms(3)
proof (induction p)
  case Nil
  from assms(1,4) show ?case by simp
next
  case (Cons c p)
  from Cons.prems have np: "\<not> prefix old (c # p)" and ns: "\<not> sublist old p"
    by (simp_all add: sublist_Cons_right)
  from no_straddling_occurrence [OF assms(1,2) np]
  have "\<not> prefix old (c # p @ old @ s)" .
  with Cons.IH [OF ns] assms(4) show ?case by simp
qed

lemma every_occurrence_replaced_unique:
  assumes "every_occurrence_replaced old new s t"
    and "old = fst_old # rest_old" and "fst_old \<notin> set rest_old" and "n < 0"
  shows "t = strings_Replace s old new n"
  using assms(1,4)
proof (induction arbitrary: n rule: every_occurrence_replaced.induct)
  case (no_occurrence s)
  then show ?case by (simp add: strings_Replace_no_occurrence)
next
  case (occurrence p s t)
  from occurrence.prems have "n - 1 < 0" by simp
  from occurrence.IH [OF this]
       strings_Replace_first_occurrence [OF assms(2,3) occurrence.hyps(1) occurrence.prems]
  show ?case by simp
qed

lemma tenant_placeholder_replaced_iff:
  "every_occurrence_replaced ''{tenant}'' new s t \<longleftrightarrow>
     t = strings_Replace s ''{tenant}'' new (- 1)"
proof
  assume "every_occurrence_replaced ''{tenant}'' new s t"
  then show "t = strings_Replace s ''{tenant}'' new (- 1)"
    by (rule every_occurrence_replaced_unique [where fst_old = "CHR ''{''" and rest_old = "''tenant}''"])
       simp_all
next
  assume "t = strings_Replace s ''{tenant}'' new (- 1)"
  then show "every_occurrence_replaced ''{tenant}'' new s t"
    by (simp add: strings_Replace_every_occurrence)
qed

text \<open>
  Claim C6. Whenever \<open>ResolveEndpoints\<close> returns endpoints after a cache miss, the
  endpoint manager gave a metadata URL, the Discovery Fetcher answered it with a
  document, and the returned authorization endpoint, token endpoint and issuer are the
  fields of that document with every occurrence of the literal \<^verbatim>\<open>{tenant}\<close> replaced by the
  tenant of the authority; the host is the host of the authority.
\<close>

theorem discovered_endpoints_substitute_tenant:
  assumes "ResolveEndpoints mk m ai upn s = (Returned (Inr eps), s')"
    and "tryGetCachedEndpoints m ai upn s = (Returned None, s1)"
  shows "\<exists>em url r.
           mk ai = Inr em \<and> getOpenIDConfigurationEndpoint em ai upn = Inr url \<and>
           GetTenantDiscoveryResponse (webRequestManager m) url = Inr r \<and>
           every_occurrence_replaced ''{tenant}'' (Tenant ai)
             (tdrAuthorizationEndpoint r) (AuthorizationEndpoint eps) \<and>
           every_occurrence_replaced ''{tenant}'' (Tenant ai)
             (tdrTokenEndpoint r) (TokenEndpoint eps) \<and>
           every_occurrence_replaced ''{tenant}'' (Tenant ai) (tdrIssuer r) (Issuer eps) \<and>
           EndpointsHost eps = Host ai"
  using assms(1)
proof (cases rule: ResolveEndpoints_success_cases)
  case hit
  with assms(2) show ?thesis by simp
next
  case (discovered em url r)
  have "every_occurrence_replaced ''{tenant}'' (Tenant ai) u
          (strings_Replace u ''{tenant}'' (Tenant ai) (- 1))" for u
    by (rule strings_Replace_every_occurrence) simp_all
  with discovered(3,4,5,9) show ?thesis
    by (auto simp add: CreateAuthorityEndpoints_def)
qed

theorem discovered_endpoints_substitute_tenant_witness:
  "ResolveEndpoints testEndpointManagerFactory (mockManager tdr) testAuthorityInfo [] initial_state =
     (Returned (Inr (CreateAuthorityEndpoints ''https://login.test/contoso/authorize''
                       ''https://login.test/contoso/token'' ''https://login.test/contoso''
                       ''login.test'')),
      snd (ResolveEndpoints testEndpointManagerFactory (mockManager tdr) testAuthorityInfo []
             initial_state)) \<and>
   tryGetCachedEndpoints (mockManager tdr) testAuthorityInfo [] initial_state =
     (Returned None, record_event (CacheLookup ''https://login.test/contoso/'') initial_state) \<and>
   (\<exists>em url r.
      testEndpointManagerFactory testAuthorityInfo = Inr em \<and>
      getOpenIDConfigurationEndpoint em testAuthorityInfo [] = Inr url \<and>
      GetTenantDiscoveryResponse (webRequestManager (mockManager tdr)) url = Inr r \<and>
      every_occurrence_replaced ''{tenant}'' (Tenant testAuthorityInfo)
        (tdrAuthorizationEndpoint r)
        (AuthorizationEndpoint (CreateAuthorityEndpoints ''https://login.test/contoso/authorize''
           ''https://login.test/contoso/token'' ''https://login.test/contoso'' ''login.test'')) \<and>
      every_occurrence_replaced ''{tenant}'' (Tenant testAuthorityInfo)
        (tdrTokenEndpoint r)
        (TokenEndpoint (CreateAuthorityEndpoints ''https://login.test/contoso/authorize''
           ''https://login.test/contoso/token'' ''https://login.test/contoso'' ''login.test'')) \<and>
      every_occurrence_replaced ''{tenant}'' (Tenant testAuthorityInfo)
        (tdrIssuer r)
        (Issuer (CreateAuthorityEndpoints ''https://login.test/contoso/authorize''
           ''https://login.test/contoso/token'' ''https://login.test/contoso'' ''login.test'')) \<and>
      EndpointsHost (CreateAuthorityEndpoints ''https://login.test/contoso/authorize''
           ''https://login.test/contoso/token'' ''https://login.test/contoso'' ''login.test'') =
        Host testAuthorityInfo)"
proof -
  have h1: "ResolveEndpoints testEndpointManagerFactory (mockManager tdr) testAuthorityInfo []
              initial_state =
     (Returned (Inr (CreateAuthorityEndpoints ''https://login.test/contoso/authorize''
                       ''https://login.test/contoso/token'' ''https://login.test/contoso''
                       ''login.test'')),
      snd (ResolveEndpoints testEndpointManagerFactory (mockManager tdr) testAuthorityInfo []
             initial_state))"
    by (simp add: prod_eq_iff fixture_defs resolver_defs)
  have h2: "tryGetCachedEndpoints (mockManager tdr) testAuthorityInfo [] initial_state =
     (Returned None, record_event (CacheLookup ''https://login.test/contoso/'') initial_state)"
    by (simp add: tryGetCachedEndpoints_def testAuthorityInfo_def initial_state_def)
  from discovered_endpoints_substitute_tenant [OF h1 h2] h1 h2
  show ?thesis by blast
qed

section \<open>The tenant override\<close>



subsection \<open>The rule on the rows of the repository's test\<close>

lemmas tenant_test_defs = uuid1_def uuid2_def lmo_def host_def base_specifier_def
  TestAcquireTokenWithTenantID_cases_def case_passes_def

text \<open>
  The code under test is not among the sources, so the rows of
  \<^verbatim>\<open>TestAcquireTokenWithTenantID\<close> are all that is known of it. The rule of the spec
  gives what the test expects on five of the six rows. On the third row (the authority
  of \<open>uuid1\<close> with the override \<open>uuid2\<close>) the test expects no error and requests that go
  to the authority of \<open>uuid2\<close>, and the rule of the spec rejects the override.
\<close>

lemma validateTenantOverride_on_test_rows:
  "map (case_passes validateTenantOverride) TestAcquireTokenWithTenantID_cases =
     [True, True, False, True, True, True]"
  by (simp add: tenant_test_defs validateTenantOverride_def)

lemma test_row_3:
  "TestAcquireTokenWithTenantID_cases ! 2 =
     \<lparr>authority = host @ uuid1, expectedAuthority = host @ uuid2, tenant = uuid2,
      expectError = False\<rparr> \<and>
   base_specifier (host @ uuid1) = uuid1 \<and>
   validateTenantOverride uuid1 uuid2 = Inl ConfigurationError"
  by (simp add: tenant_test_defs validateTenantOverride_def)

end
